theory Spec2Isabelle
  imports Main "HOL-Library.Multiset"
begin

section \<open>Values, frames and the Python string helpers\<close>

text \<open>
  A pandas frame is modelled row by row: the ordered column labels and, for every row, a map
  from label to cell. A cell is missing (\<open>NaN\<close>, which also stands for \<open>NaT\<close> and
  \<open>pd.NA\<close>), a text, an integer or a timestamp. Sub-second parts and time zones of a
  timestamp are outside the model.
\<close>

record timestamp =
  ts_year :: int
  ts_month :: nat
  ts_day :: nat
  ts_hour :: nat
  ts_minute :: nat
  ts_second :: nat

datatype cell = NaN | Str string | Num int | Stamp timestamp

datatype error = KeyError string | ValueError | RenderError

type_synonym row = "string \<rightharpoonup> cell"

record dataframe =
  columns :: "string list"
  rows :: "row list"

definition cell_of :: "row \<Rightarrow> string \<Rightarrow> cell" where
  "cell_of r c = (case r c of Some v \<Rightarrow> v | None \<Rightarrow> NaN)"

text \<open>\<open>df[c]\<close>: the column as a series (a list of cells), \<open>KeyError\<close> when absent.\<close>

definition getitem :: "dataframe \<Rightarrow> string \<Rightarrow> error + cell list" where
  "getitem df c =
     (if c \<in> set (columns df) then Inr (map (\<lambda>r. cell_of r c) (rows df))
      else Inl (KeyError c))"

text \<open>
  \<open>df[c] = series\<close>: the assignment aligns the series on the frame's index, so the frame
  keeps its rows; a row without a partner in the series receives \<open>NaN\<close>. A new label is
  appended to the columns.
\<close>

definition setitem :: "dataframe \<Rightarrow> string \<Rightarrow> cell list \<Rightarrow> dataframe" where
  "setitem df c vs =
     \<lparr>columns = (if c \<in> set (columns df) then columns df else columns df @ [c]),
      rows = map (\<lambda>(i, r). r(c \<mapsto> (if i < length vs then vs ! i else NaN)))
                 (enumerate 0 (rows df))\<rparr>"

text \<open>\<open>df[c] = scalar\<close>: every row receives the scalar.\<close>

definition setitem_scalar :: "dataframe \<Rightarrow> string \<Rightarrow> cell \<Rightarrow> dataframe" where
  "setitem_scalar df c v =
     \<lparr>columns = (if c \<in> set (columns df) then columns df else columns df @ [c]),
      rows = map (\<lambda>r. r(c \<mapsto> v)) (rows df)\<rparr>"

text \<open>\<open>df.drop(columns=cs, errors='ignore')\<close>: labels that are not there are skipped.\<close>

definition drop_columns :: "dataframe \<Rightarrow> string list \<Rightarrow> dataframe" where
  "drop_columns df cs =
     \<lparr>columns = filter (\<lambda>c. c \<notin> set cs) (columns df),
      rows = map (\<lambda>r. r |` (- set cs)) (rows df)\<rparr>"

definition fillna :: "cell \<Rightarrow> cell list \<Rightarrow> cell list" where
  "fillna v s = map (\<lambda>c. if c = NaN then v else c) s"

text \<open>\<open>series.dt.year\<close> on the datetime series that \<open>to_datetime\<close> returns.\<close>

definition dt_year :: "cell \<Rightarrow> cell" where
  "dt_year c = (case c of Stamp t \<Rightarrow> Num (ts_year t) | _ \<Rightarrow> NaN)"

text \<open>
  \<open>pd.to_datetime(series, errors='coerce')\<close> is library code: the tolerant parser is a
  parameter \<open>to_datetime\<close>, with \<open>None\<close> for the \<open>NaT\<close> that an unparsable entry becomes.
\<close>

definition coerce_datetime :: "(cell \<Rightarrow> timestamp option) \<Rightarrow> cell \<Rightarrow> cell" where
  "coerce_datetime to_datetime c = (case to_datetime c of Some t \<Rightarrow> Stamp t | None \<Rightarrow> NaN)"

subsection \<open>\<open>str\<close>, \<open>split\<close>, \<open>lower\<close>, \<open>strip\<close>, \<open>join\<close>\<close>

fun digits :: "nat \<Rightarrow> string" where
  "digits n =
     (if n < 10 then [char_of (48 + n)] else digits (n div 10) @ [char_of (48 + n mod 10)])"

definition str_int :: "int \<Rightarrow> string" where
  "str_int i = (if i < 0 then CHR ''-'' # digits (nat (- i)) else digits (nat i))"

definition pad :: "nat \<Rightarrow> nat \<Rightarrow> string" where
  "pad w n = replicate (w - length (digits n)) CHR ''0'' @ digits n"

text \<open>\<open>str(x)\<close> for the cells of the model; floating-point cells are not modelled.\<close>

definition py_str :: "cell \<Rightarrow> string" where
  "py_str c =
     (case c of
        NaN \<Rightarrow> ''nan''
      | Str s \<Rightarrow> s
      | Num i \<Rightarrow> str_int i
      | Stamp t \<Rightarrow>
          (if ts_year t < 0 then CHR ''-'' # pad 4 (nat (- ts_year t)) else pad 4 (nat (ts_year t)))
          @ ''-'' @ pad 2 (ts_month t) @ ''-'' @ pad 2 (ts_day t) @ '' ''
          @ pad 2 (ts_hour t) @ '':'' @ pad 2 (ts_minute t) @ '':'' @ pad 2 (ts_second t))"

text \<open>The ASCII characters Python's \<open>str.isspace\<close> accepts: tab to carriage return, the
  four separators 28 to 31, and the blank. A \<open>char\<close> is a byte: the blanks and the letters
  of Unicode beyond ASCII are outside the model, here and in \<open>lower_char\<close>.\<close>

definition is_space :: "char \<Rightarrow> bool" where
  "is_space c = (let n = (of_char c :: nat) in (9 \<le> n \<and> n \<le> 13) \<or> (28 \<le> n \<and> n \<le> 32))"

text \<open>\<open>s.split()\<close>: the maximal runs of non-blank characters, in order.\<close>

fun split_from :: "string \<Rightarrow> string \<Rightarrow> string list" where
  "split_from cur [] = (if cur = [] then [] else [cur])"
| "split_from cur (c # cs) =
     (if is_space c then (if cur = [] then [] else [cur]) @ split_from [] cs
      else split_from (cur @ [c]) cs)"

definition py_split :: "string \<Rightarrow> string list" where
  "py_split s = split_from [] s"

definition lower_char :: "char \<Rightarrow> char" where
  "lower_char c =
     (let n = (of_char c :: nat) in if 65 \<le> n \<and> n \<le> 90 then char_of (n + 32) else c)"

definition py_lower :: "string \<Rightarrow> string" where
  "py_lower s = map lower_char s"

definition py_strip :: "string \<Rightarrow> string" where
  "py_strip s = rev (dropWhile is_space (rev (dropWhile is_space s)))"

fun py_join :: "string \<Rightarrow> string list \<Rightarrow> string" where
  "py_join sep [] = []"
| "py_join sep [x] = x"
| "py_join sep (x # y # ys) = x @ sep @ py_join sep (y # ys)"

text \<open>\<open>lambda x: len(str(x).split())\<close>, and the same through \<open>astype(str)\<close>.\<close>

definition word_count :: "cell \<Rightarrow> cell" where
  "word_count c = Num (int (length (py_split (py_str c))))"

section \<open>The Cleaner: batch script and \<open>load_data\<close>\<close>

definition drop_cols :: "string list" where
  "drop_cols = [''sha'', ''license'', ''pmcid'', ''pubmed_id'',
                ''arxiv_id'', ''who_covidence_id'', ''has_full_text'']"

text \<open>
  A raised exception ends the run: \<open>bind_err\<close> passes the first error on.
  \<open>assign_from df dst f src\<close> is the statement \<open>df[dst] = f(df[src])\<close>, which raises
  \<open>KeyError\<close> when \<open>src\<close> is not a column.
\<close>

definition bind_err :: "error + 'a \<Rightarrow> ('a \<Rightarrow> error + 'b) \<Rightarrow> error + 'b" where
  "bind_err m f = (case m of Inl e \<Rightarrow> Inl e | Inr x \<Rightarrow> f x)"

definition assign_from ::
  "dataframe \<Rightarrow> string \<Rightarrow> (cell list \<Rightarrow> cell list) \<Rightarrow> string \<Rightarrow> error + dataframe" where
  "assign_from df dst f src =
     (case getitem df src of Inl e \<Rightarrow> Inl e | Inr s \<Rightarrow> Inr (setitem df dst (f s)))"

text \<open>Week8.py, Part 2: drop, fill abstract then title, parse, year, word count.\<close>

definition clean_batch :: "(cell \<Rightarrow> timestamp option) \<Rightarrow> dataframe \<Rightarrow> error + dataframe" where
  "clean_batch to_datetime df0 =
     bind_err (Inr (drop_columns df0 drop_cols)) (\<lambda>df.
     bind_err (assign_from df ''abstract'' (fillna (Str ''No abstract available'')) ''abstract'') (\<lambda>df.
     bind_err (assign_from df ''title'' (fillna (Str ''No title available'')) ''title'') (\<lambda>df.
     bind_err (assign_from df ''publish_time'' (map (coerce_datetime to_datetime)) ''publish_time'') (\<lambda>df.
     bind_err (assign_from df ''year'' (map dt_year) ''publish_time'') (\<lambda>df.
     assign_from df ''abstract_word_count'' (map word_count) ''abstract'')))))"

text \<open>app.py, \<open>load_data\<close> after \<open>read_csv\<close>: fill title then abstract, parse only when the
  column is there, otherwise \<open>year = pd.NA\<close>; word count. Nothing is dropped.\<close>

definition load_data :: "(cell \<Rightarrow> timestamp option) \<Rightarrow> dataframe \<Rightarrow> error + dataframe" where
  "load_data to_datetime df0 =
     bind_err (assign_from df0 ''title'' (fillna (Str ''No title available'')) ''title'') (\<lambda>df.
     bind_err (assign_from df ''abstract'' (fillna (Str ''No abstract available'')) ''abstract'') (\<lambda>df.
     bind_err
       (if ''publish_time'' \<in> set (columns df) then
          bind_err (assign_from df ''publish_time'' (map (coerce_datetime to_datetime)) ''publish_time'') (\<lambda>df.
          assign_from df ''year'' (map dt_year) ''publish_time'')
        else Inr (setitem_scalar df ''year'' NaN)) (\<lambda>df.
     assign_from df ''abstract_word_count'' (map word_count) ''abstract'')))"

text \<open>What the two cleaners do to one row that has a publish time column.\<close>

definition clean_row :: "(cell \<Rightarrow> timestamp option) \<Rightarrow> row \<Rightarrow> row" where
  "clean_row to_datetime r =
     (let a = (if cell_of r ''abstract'' = NaN then Str ''No abstract available''
               else cell_of r ''abstract'');
          t = (if cell_of r ''title'' = NaN then Str ''No title available''
               else cell_of r ''title'');
          p = coerce_datetime to_datetime (cell_of r ''publish_time'')
      in r(''abstract'' \<mapsto> a, ''title'' \<mapsto> t, ''publish_time'' \<mapsto> p,
           ''year'' \<mapsto> dt_year p, ''abstract_word_count'' \<mapsto> word_count a))"

text \<open>The raw record of the specification's scenario, in a sample that also has a sparse
  column.\<close>

definition raw_scenario :: dataframe where
  "raw_scenario =
     \<lparr>columns = [''title'', ''abstract'', ''publish_time'', ''journal'', ''sha''],
      rows = [[''title'' \<mapsto> NaN, ''abstract'' \<mapsto> NaN,
               ''publish_time'' \<mapsto> Str ''not-a-date'', ''journal'' \<mapsto> Str ''J1'',
               ''sha'' \<mapsto> Str ''ab12'']]\<rparr>"

text \<open>What \<open>load_data\<close> does to one row of a sample without a publish time column.\<close>

definition load_row_plain :: "row \<Rightarrow> row" where
  "load_row_plain r =
     (let t = (if cell_of r ''title'' = NaN then Str ''No title available''
               else cell_of r ''title'');
          a = (if cell_of r ''abstract'' = NaN then Str ''No abstract available''
               else cell_of r ''abstract'')
      in r(''title'' \<mapsto> t, ''abstract'' \<mapsto> a, ''year'' \<mapsto> NaN,
           ''abstract_word_count'' \<mapsto> word_count a))"

text \<open>A sample with its header and no record.\<close>

definition raw_empty :: dataframe where
  "raw_empty = \<lparr>columns = [''title'', ''abstract'', ''publish_time'', ''journal''], rows = []\<rparr>"

text \<open>A stand-in parser for concrete runs: it reads a text of four digits as the first day
  of that year, as the library does, and nothing else. It is used only on the sample frames
  below, where it agrees with the library; it is not a model of \<open>pd.to_datetime\<close>.\<close>

definition digit_value :: "char \<Rightarrow> nat" where
  "digit_value c = of_char c - 48"

definition is_digit :: "char \<Rightarrow> bool" where
  "is_digit c = (let n = (of_char c :: nat) in 48 \<le> n \<and> n \<le> 57)"

definition year_parser :: "cell \<Rightarrow> timestamp option" where
  "year_parser c =
     (case c of
        Str s \<Rightarrow>
          (if length s = 4 \<and> list_all is_digit s then
             Some \<lparr>ts_year = int (foldl (\<lambda>n d. 10 * n + digit_value d) 0 s), ts_month = 1,
                   ts_day = 1, ts_hour = 0, ts_minute = 0, ts_second = 0\<rparr>
           else None)
      | _ \<Rightarrow> None)"

definition raw_years :: dataframe where
  "raw_years =
     \<lparr>columns = [''title'', ''abstract'', ''publish_time'', ''journal''],
      rows = [[''title'' \<mapsto> Str ''t1'', ''abstract'' \<mapsto> NaN,
               ''publish_time'' \<mapsto> Str ''2019'', ''journal'' \<mapsto> Str ''J1''],
              [''title'' \<mapsto> Str ''t2'', ''abstract'' \<mapsto> Str ''two words'',
               ''publish_time'' \<mapsto> Str ''2020'', ''journal'' \<mapsto> Str ''J2''],
              [''title'' \<mapsto> Str ''t3'', ''abstract'' \<mapsto> NaN,
               ''publish_time'' \<mapsto> Str ''2020'', ''journal'' \<mapsto> NaN],
              [''title'' \<mapsto> Str ''t4'', ''abstract'' \<mapsto> NaN,
               ''publish_time'' \<mapsto> Str ''not-a-date'', ''journal'' \<mapsto> Str ''J1'']]\<rparr>"

text \<open>A sample without the \<open>publish_time\<close> and \<open>source_x\<close> columns.\<close>

definition raw_undated :: dataframe where
  "raw_undated =
     \<lparr>columns = [''title'', ''abstract'', ''journal''],
      rows = [[''title'' \<mapsto> Str ''t1'', ''abstract'' \<mapsto> NaN, ''journal'' \<mapsto> Str ''J1''],
              [''title'' \<mapsto> NaN, ''abstract'' \<mapsto> Str ''a b'', ''journal'' \<mapsto> Str ''J2'']]\<rparr>"

text \<open>The cleaned record of the specification's scenario.\<close>

definition scenario_cleaned :: "row \<Rightarrow> bool" where
  "scenario_cleaned r =
     (cell_of r ''title'' = Str ''No title available'' \<and>
      cell_of r ''abstract'' = Str ''No abstract available'' \<and>
      cell_of r ''abstract_word_count'' = Num 3 \<and>
      cell_of r ''publish_time'' = NaN \<and>
      cell_of r ''year'' = NaN \<and>
      cell_of r ''journal'' = Str ''J1'')"

section \<open>The Filter Engine of the explorer\<close>

text \<open>
  \<open>series.between(lo, hi, inclusive="both")\<close> is \<open>(series >= lo) & (series <= hi)\<close>; a
  comparison with a missing value is false. The year column holds integers and missing
  values only. \<open>series.isin(values)\<close> is membership in the listed values.
\<close>

definition between :: "int \<Rightarrow> int \<Rightarrow> cell \<Rightarrow> bool" where
  "between lo hi c = (case c of Num y \<Rightarrow> lo \<le> y \<and> y \<le> hi | _ \<Rightarrow> False)"

definition isin :: "cell list \<Rightarrow> cell \<Rightarrow> bool" where
  "isin vs c = (c \<in> set vs)"

text \<open>\<open>df[mask]\<close>: the rows whose mask entry is true, in their order.\<close>

definition select_rows :: "dataframe \<Rightarrow> bool list \<Rightarrow> dataframe" where
  "select_rows df keep = df\<lparr>rows := map snd (filter fst (zip keep (rows df)))\<rparr>"

text \<open>app.py, "Apply filters": the value that \<open>df_filtered\<close> ends with.\<close>

definition apply_filters :: "dataframe \<Rightarrow> int \<times> int \<Rightarrow> cell list \<Rightarrow> error + dataframe" where
  "apply_filters df year_range selected_journals =
     bind_err (Inr df) (\<lambda>df_filtered.
     bind_err
       (if ''year'' \<in> set (columns df_filtered) then
          bind_err (getitem df_filtered ''year'') (\<lambda>y.
          Inr (select_rows df_filtered (map (between (fst year_range) (snd year_range)) y)))
        else Inr df_filtered) (\<lambda>df_filtered.
     if selected_journals \<noteq> [] then
       bind_err (getitem df_filtered ''journal'') (\<lambda>j.
       Inr (select_rows df_filtered (map (isin selected_journals) j)))
     else Inr df_filtered))"

text \<open>The inclusion rule of the specification, for one record.\<close>

definition passes :: "int \<times> int \<Rightarrow> cell list \<Rightarrow> row \<Rightarrow> bool" where
  "passes year_range journal_set r =
     ((case cell_of r ''year'' of
         Num y \<Rightarrow> fst year_range \<le> y \<and> y \<le> snd year_range
       | _ \<Rightarrow> False) \<and>
      (journal_set = [] \<or> cell_of r ''journal'' \<in> set journal_set))"

subsection \<open>The same statements on a store of frame objects\<close>

text \<open>
  Python names refer to objects. The session holds the objects by address, the next free
  address, and the addresses the names \<open>df\<close> and \<open>df_filtered\<close> are bound to. \<open>df.copy()\<close>
  and \<open>obj[mask]\<close> each build a new object; nothing in the filter statements writes into
  an existing one.
\<close>

record session =
  heap :: "nat \<Rightarrow> dataframe"
  next_ref :: nat
  var_df :: nat
  var_df_filtered :: nat

definition alloc :: "dataframe \<Rightarrow> session \<Rightarrow> nat \<times> session" where
  "alloc d s = (next_ref s, s\<lparr>heap := (heap s)(next_ref s := d), next_ref := Suc (next_ref s)\<rparr>)"

definition copy_frame :: "nat \<Rightarrow> session \<Rightarrow> nat \<times> session" where
  "copy_frame a s = alloc (heap s a) s"

definition index_rows :: "nat \<Rightarrow> bool list \<Rightarrow> session \<Rightarrow> nat \<times> session" where
  "index_rows a keep s = alloc (select_rows (heap s a) keep) s"

definition bind_filtered :: "nat \<times> session \<Rightarrow> session" where
  "bind_filtered p = (snd p)\<lparr>var_df_filtered := fst p\<rparr>"

definition year_filter :: "int \<times> int \<Rightarrow> session \<Rightarrow> session" where
  "year_filter year_range s =
     (if ''year'' \<in> set (columns (heap s (var_df_filtered s))) then
        (case getitem (heap s (var_df_filtered s)) ''year'' of
           Inl e \<Rightarrow> s
         | Inr y \<Rightarrow> bind_filtered (index_rows (var_df_filtered s)
                      (map (between (fst year_range) (snd year_range)) y) s))
      else s)"

definition journal_filter :: "cell list \<Rightarrow> session \<Rightarrow> session \<times> error option" where
  "journal_filter selected_journals s =
     (if selected_journals \<noteq> [] then
        (case getitem (heap s (var_df_filtered s)) ''journal'' of
           Inl e \<Rightarrow> (s, Some e)
         | Inr j \<Rightarrow> (bind_filtered (index_rows (var_df_filtered s)
                       (map (isin selected_journals) j) s), None))
      else (s, None))"

definition run_filters :: "int \<times> int \<times> cell list \<Rightarrow> session \<Rightarrow> session \<times> error option" where
  "run_filters spec s =
     journal_filter (snd (snd spec))
       (year_filter (fst spec, fst (snd spec)) (bind_filtered (copy_frame (var_df s) s)))"

text \<open>One rerun of the script per interaction, each with its own Filter Spec.\<close>

fun reruns :: "(int \<times> int \<times> cell list) list \<Rightarrow> session \<Rightarrow> session" where
  "reruns [] s = s"
| "reruns (spec # specs) s = reruns specs (fst (run_filters spec s))"

definition session0 :: session where
  "session0 = \<lparr>heap = (\<lambda>a. \<lparr>columns = [''journal'', ''year''],
                  rows = [[''journal'' \<mapsto> Str ''J1'', ''year'' \<mapsto> Num 2019],
                          [''journal'' \<mapsto> Str ''J2'', ''year'' \<mapsto> Num 2020],
                          [''journal'' \<mapsto> Str ''J1'', ''year'' \<mapsto> NaN]]\<rparr>),
               next_ref = 1, var_df = 0, var_df_filtered = 0\<rparr>"

section \<open>The Aggregator\<close>

text \<open>
  Counting as the hash table of \<open>value_counts\<close> and Python's \<open>Counter\<close> do it: a key is
  entered when first met and its count raised on every later meeting, so the keys stand in
  the order of their first appearance.
\<close>

fun bump :: "'a \<Rightarrow> ('a \<times> nat) list \<Rightarrow> ('a \<times> nat) list" where
  "bump v [] = [(v, 1)]"
| "bump v ((k, n) # kvs) = (if k = v then (k, Suc n) # kvs else (k, n) # bump v kvs)"

definition tally :: "'a list \<Rightarrow> ('a \<times> nat) list" where
  "tally xs = foldl (\<lambda>acc v. bump v acc) [] xs"


definition sort_values_desc ::
  "(('a \<times> nat) list \<Rightarrow> ('a \<times> nat) list) \<Rightarrow> ('a \<times> nat) list \<Rightarrow> ('a \<times> nat) list" where
  "sort_values_desc argsort kvs = rev (argsort (rev kvs))"

definition value_counts ::
  "((cell \<times> nat) list \<Rightarrow> (cell \<times> nat) list) \<Rightarrow> cell list \<Rightarrow> (cell \<times> nat) list" where
  "value_counts argsort s = sort_values_desc argsort (tally (filter (\<lambda>c. c \<noteq> NaN) s))"

text \<open>\<open>sort_index()\<close> on the year counts: the index holds integers, each once.\<close>

definition index_key :: "cell \<Rightarrow> int" where
  "index_key c = (case c of Num i \<Rightarrow> i | _ \<Rightarrow> 0)"

definition sort_index :: "(cell \<times> nat) list \<Rightarrow> (cell \<times> nat) list" where
  "sort_index kvs = sort_key (\<lambda>p. index_key (fst p)) kvs"

text \<open>\<open>df['journal'].value_counts().head(n)\<close>; the batch script takes \<open>n = 10\<close>.\<close>

definition top_journals ::
  "((cell \<times> nat) list \<Rightarrow> (cell \<times> nat) list) \<Rightarrow> dataframe \<Rightarrow> nat \<Rightarrow> error + (cell \<times> nat) list" where
  "top_journals argsort df n =
     bind_err (getitem df ''journal'') (\<lambda>j. Inr (take n (value_counts argsort j)))"





text \<open>The stable sort by count: entries with equal counts keep their order.\<close>

definition argsort_stable :: "(cell \<times> nat) list \<Rightarrow> (cell \<times> nat) list" where
  "argsort_stable kvs = sort_key snd kvs"


text \<open>Week8.py, word frequency: \<open>" ".join(df['title'].dropna().astype(str).tolist()).lower()\<close>,
  the words longer than three characters, and \<open>Counter(words).most_common(20)\<close> (a
  stable sort, larger count first).\<close>

definition all_titles :: "cell list \<Rightarrow> string" where
  "all_titles t = py_lower (py_join '' '' (map py_str (filter (\<lambda>c. c \<noteq> NaN) t)))"

definition most_common :: "nat \<Rightarrow> ('a \<times> nat) list \<Rightarrow> ('a \<times> nat) list" where
  "most_common n kvs = take n (rev (sort_key snd (rev kvs)))"

definition common_words :: "string \<Rightarrow> (string \<times> nat) list" where
  "common_words text = most_common 20 (tally (filter (\<lambda>w. 3 < length w) (py_split text)))"

section \<open>Rendering: the batch report and the explorer\<close>

text \<open>
  Drawing and the word cloud are library code. \<open>renderer fig\<close> tells whether drawing and
  saving (or showing) the figure goes through; \<open>process_text\<close> is the word cloud's own
  tokenizer, and \<open>WordCloud.generate\<close> raises \<open>ValueError\<close> when it finds no word.
\<close>

datatype figure =
    LinePlot "(cell \<times> nat) list"
  | BarPlot "(cell \<times> nat) list"
  | WordCloudImage "(string \<times> nat) list"
  | PiePlot "(cell \<times> nat) list"

definition generate :: "(string \<Rightarrow> (string \<times> nat) list) \<Rightarrow> string \<Rightarrow> error + figure" where
  "generate process_text text =
     (let words = process_text text in
      if words = [] then Inl ValueError else Inr (WordCloudImage words))"

subsection \<open>Week8.py, Part 3\<close>

text \<open>The run carries the image files saved so far; an exception stops it and leaves
  them on disk.\<close>

type_synonym progress = "string list \<times> error option"

definition and_then :: "progress \<Rightarrow> (string list \<Rightarrow> progress) \<Rightarrow> progress" where
  "and_then p step = (case snd p of Some e \<Rightarrow> p | None \<Rightarrow> step (fst p))"

definition savefig :: "(figure \<Rightarrow> bool) \<Rightarrow> figure \<Rightarrow> string \<Rightarrow> string list \<Rightarrow> progress" where
  "savefig renderer fig path saved =
     (if renderer fig then (saved @ [path], None) else (saved, Some RenderError))"

definition plot_by_year ::
  "((cell \<times> nat) list \<Rightarrow> (cell \<times> nat) list) \<Rightarrow> (figure \<Rightarrow> bool) \<Rightarrow> dataframe \<Rightarrow> string list \<Rightarrow> progress" where
  "plot_by_year argsort renderer df saved =
     (case getitem df ''year'' of
        Inl e \<Rightarrow> (saved, Some e)
      | Inr y \<Rightarrow> savefig renderer (LinePlot (sort_index (value_counts argsort y)))
                  ''plots/publications_by_year.png'' saved)"

definition plot_top_journals ::
  "((cell \<times> nat) list \<Rightarrow> (cell \<times> nat) list) \<Rightarrow> (figure \<Rightarrow> bool) \<Rightarrow> dataframe \<Rightarrow> string list \<Rightarrow> progress" where
  "plot_top_journals argsort renderer df saved =
     (case top_journals argsort df 10 of
        Inl e \<Rightarrow> (saved, Some e)
      | Inr tj \<Rightarrow> savefig renderer (BarPlot tj) ''plots/top_journals.png'' saved)"

definition plot_wordcloud ::
  "(string \<Rightarrow> (string \<times> nat) list) \<Rightarrow> (figure \<Rightarrow> bool) \<Rightarrow> dataframe \<Rightarrow> string list \<Rightarrow> progress" where
  "plot_wordcloud process_text renderer df saved =
     (case getitem df ''title'' of
        Inl e \<Rightarrow> (saved, Some e)
      | Inr t \<Rightarrow>
          (case generate process_text (all_titles t) of
             Inl e \<Rightarrow> (saved, Some e)
           | Inr fig \<Rightarrow> savefig renderer fig ''plots/wordcloud_titles.png'' saved))"

definition plot_sources ::
  "((cell \<times> nat) list \<Rightarrow> (cell \<times> nat) list) \<Rightarrow> (figure \<Rightarrow> bool) \<Rightarrow> dataframe \<Rightarrow> string list \<Rightarrow> progress" where
  "plot_sources argsort renderer df saved =
     (case getitem df ''source_x'' of
        Inl e \<Rightarrow> (saved, Some e)
      | Inr src \<Rightarrow> savefig renderer (PiePlot (take 10 (value_counts argsort src)))
                    ''plots/source_distribution.png'' saved)"

definition batch_analysis ::
  "((cell \<times> nat) list \<Rightarrow> (cell \<times> nat) list) \<Rightarrow> (string \<Rightarrow> (string \<times> nat) list) \<Rightarrow>
   (figure \<Rightarrow> bool) \<Rightarrow> dataframe \<Rightarrow> progress" where
  "batch_analysis argsort process_text renderer df =
     and_then (and_then (and_then
       (plot_by_year argsort renderer df [])
       (plot_top_journals argsort renderer df))
       (plot_wordcloud process_text renderer df))
       (plot_sources argsort renderer df)"

text \<open>The batch run from the loaded sample on: cleaning, then the four plots.\<close>

definition batch_report ::
  "(cell \<Rightarrow> timestamp option) \<Rightarrow> ((cell \<times> nat) list \<Rightarrow> (cell \<times> nat) list) \<Rightarrow>
   (string \<Rightarrow> (string \<times> nat) list) \<Rightarrow> (figure \<Rightarrow> bool) \<Rightarrow> dataframe \<Rightarrow> progress" where
  "batch_report to_datetime argsort process_text renderer sample =
     (case clean_batch to_datetime sample of
        Inl e \<Rightarrow> ([], Some e)
      | Inr df \<Rightarrow> batch_analysis argsort process_text renderer df)"

subsection \<open>app.py, the four visualizations\<close>

datatype display = Pyplot figure | Image figure | Info string

text \<open>\<open>'c' in df.columns and df['c'].notna().any()\<close>\<close>

definition has_values :: "dataframe \<Rightarrow> string \<Rightarrow> bool" where
  "has_values df c = (c \<in> set (columns df) \<and> list_ex (\<lambda>r. cell_of r c \<noteq> NaN) (rows df))"

definition render :: "(figure \<Rightarrow> bool) \<Rightarrow> figure \<Rightarrow> error + figure" where
  "render renderer fig = (if renderer fig then Inr fig else Inl RenderError)"

definition view_by_year ::
  "((cell \<times> nat) list \<Rightarrow> (cell \<times> nat) list) \<Rightarrow> (figure \<Rightarrow> bool) \<Rightarrow> dataframe \<Rightarrow> error + display" where
  "view_by_year argsort renderer df =
     (if has_values df ''year'' then
        bind_err (getitem df ''year'') (\<lambda>y.
        bind_err (render renderer (LinePlot (sort_index (value_counts argsort y)))) (\<lambda>fig.
        Inr (Pyplot fig)))
      else Inr (Info ''No valid 'year' values available for plotting.''))"

definition view_top_journals ::
  "((cell \<times> nat) list \<Rightarrow> (cell \<times> nat) list) \<Rightarrow> (figure \<Rightarrow> bool) \<Rightarrow> dataframe \<Rightarrow> nat \<Rightarrow> error + display" where
  "view_top_journals argsort renderer df top_n =
     (if has_values df ''journal'' then
        bind_err (top_journals argsort df top_n) (\<lambda>tj.
        bind_err (render renderer (BarPlot tj)) (\<lambda>fig.
        Inr (Pyplot fig)))
      else Inr (Info ''No journal information available to display.''))"

definition view_wordcloud ::
  "(string \<Rightarrow> (string \<times> nat) list) \<Rightarrow> (figure \<Rightarrow> bool) \<Rightarrow> dataframe \<Rightarrow> error + display" where
  "view_wordcloud process_text renderer df =
     bind_err (getitem df ''title'') (\<lambda>t.
     if 0 < length (py_strip (all_titles t)) then
       bind_err (generate process_text (all_titles t)) (\<lambda>wc.
       bind_err (render renderer wc) (\<lambda>fig.
       Inr (Image fig)))
     else Inr (Info ''No title text available to generate a word cloud.''))"

definition view_sources ::
  "((cell \<times> nat) list \<Rightarrow> (cell \<times> nat) list) \<Rightarrow> (figure \<Rightarrow> bool) \<Rightarrow> dataframe \<Rightarrow> error + display" where
  "view_sources argsort renderer df =
     (if has_values df ''source_x'' then
        bind_err (getitem df ''source_x'') (\<lambda>src.
        bind_err (render renderer (PiePlot (take 10 (value_counts argsort src)))) (\<lambda>fig.
        Inr (Pyplot fig)))
      else Inr (Info ''No 'source_x' column available in this dataset sample.''))"

definition explorer_views ::
  "((cell \<times> nat) list \<Rightarrow> (cell \<times> nat) list) \<Rightarrow> (string \<Rightarrow> (string \<times> nat) list) \<Rightarrow>
   (figure \<Rightarrow> bool) \<Rightarrow> dataframe \<Rightarrow> nat \<Rightarrow> error + display list" where
  "explorer_views argsort process_text renderer df top_n =
     bind_err (view_by_year argsort renderer df) (\<lambda>v1.
     bind_err (view_top_journals argsort renderer df top_n) (\<lambda>v2.
     bind_err (view_wordcloud process_text renderer df) (\<lambda>v3.
     bind_err (view_sources argsort renderer df) (\<lambda>v4.
     Inr [v1, v2, v3, v4]))))"

text \<open>A stand-in tokenizer for concrete runs: the blank-separated words, counted.\<close>

definition split_words :: "string \<Rightarrow> (string \<times> nat) list" where
  "split_words text = tally (py_split text)"

section \<open>The Sampler\<close>

text \<open>
  Week8.py, Step 1, on a file system that maps a path to the text of the file. Reading the
  first chunk of the source and rendering it as CSV is library code: \<open>first_chunk\<close> gives
  the text to write, or \<open>None\<close> when reading raises. \<open>to_csv(path)\<close> opens the path for
  writing, which empties the file, and then writes; \<open>write_outcome\<close> says how far it gets.
\<close>

datatype write_outcome = Written | OpenFailed | FailedAfter nat

datatype step_result = Continue | Exit

type_synonym files = "string \<rightharpoonup> string"

definition to_csv :: "string \<Rightarrow> string \<Rightarrow> write_outcome \<Rightarrow> files \<Rightarrow> files \<times> bool" where
  "to_csv path text w fs =
     (case w of
        Written \<Rightarrow> (fs(path \<mapsto> text), True)
      | OpenFailed \<Rightarrow> (fs, False)
      | FailedAfter k \<Rightarrow> (fs(path \<mapsto> take k text), False))"

definition create_sample ::
  "(string \<Rightarrow> string option) \<Rightarrow> write_outcome \<Rightarrow> files \<Rightarrow> files \<times> step_result" where
  "create_sample first_chunk w fs =
     (case fs ''metadata.csv'' of
        None \<Rightarrow> (fs, Continue)
      | Some source \<Rightarrow>
          (case first_chunk source of
             None \<Rightarrow> (fs, Exit)
           | Some text \<Rightarrow>
               (case to_csv ''metadata_sample.csv'' text w fs of
                  (fs', True) \<Rightarrow> (fs', Continue)
                | (fs', False) \<Rightarrow> (fs', Exit))))"

definition files0 :: files where
  "files0 = [''metadata.csv'' \<mapsto> ''title,abstract;t1,a1;t2,a2'',
             ''metadata_sample.csv'' \<mapsto> ''title,abstract;t0,a0'']"

section \<open>Frame operations keep the rows\<close>

lemma bind_err_simps:
  "bind_err (Inr x) f = f x" "bind_err (Inl e) f = Inl e"
  by (simp_all add: bind_err_def)

lemma bind_err_Inr_iff: "bind_err m f = Inr y \<longleftrightarrow> (\<exists>x. m = Inr x \<and> f x = Inr y)"
  by (cases m) (simp_all add: bind_err_def)

lemma length_setitem: "length (rows (setitem df c vs)) = length (rows df)"
  by (simp add: setitem_def)

lemma rows_setitem_map:
  "rows (setitem df c (map g (rows df))) = map (\<lambda>r. r(c \<mapsto> g r)) (rows df)"
  by (rule nth_equalityI) (simp_all add: setitem_def nth_enumerate_eq)

lemma columns_setitem: "set (columns (setitem df c vs)) = insert c (set (columns df))"
  by (auto simp: setitem_def)

lemma columns_setitem_scalar:
  "set (columns (setitem_scalar df c v)) = insert c (set (columns df))"
  by (auto simp: setitem_scalar_def)

lemma columns_drop: "set (columns (drop_columns df cs)) = set (columns df) - set cs"
  by (auto simp: drop_columns_def)

lemma fillna_map: "fillna v = map (\<lambda>c. if c = NaN then v else c)"
  by (rule ext) (simp add: fillna_def)

lemma assign_from_map:
  "src \<in> set (columns df) \<Longrightarrow>
   assign_from df dst (map g) src =
     Inr (setitem df dst (map (\<lambda>r. g (cell_of r src)) (rows df)))"
  by (simp add: assign_from_def getitem_def o_def)

lemma assign_from_Inr:
  "assign_from df dst f src = Inr df' \<Longrightarrow>
     src \<in> set (columns df) \<and> length (rows df') = length (rows df) \<and>
     set (columns df') = insert dst (set (columns df))"
  by (auto simp: assign_from_def getitem_def length_setitem columns_setitem split: if_splits)

section \<open>The Cleaner, row by row\<close>

lemma clean_batch_length:
  assumes "clean_batch td df = Inr df'"
  shows "length (rows df') = length (rows df)"
proof -
  from assms obtain d1 d2 d3 d4 d5 where
    "d1 = drop_columns df drop_cols"
    "assign_from d1 ''abstract'' (fillna (Str ''No abstract available'')) ''abstract'' = Inr d2"
    "assign_from d2 ''title'' (fillna (Str ''No title available'')) ''title'' = Inr d3"
    "assign_from d3 ''publish_time'' (map (coerce_datetime td)) ''publish_time'' = Inr d4"
    "assign_from d4 ''year'' (map dt_year) ''publish_time'' = Inr d5"
    "assign_from d5 ''abstract_word_count'' (map word_count) ''abstract'' = Inr df'"
    unfolding clean_batch_def bind_err_Inr_iff by auto
  then show ?thesis
    by (auto dest!: assign_from_Inr simp: drop_columns_def)
qed

lemma load_data_length:
  assumes "load_data td df = Inr df'"
  shows "length (rows df') = length (rows df)"
proof -
  from assms obtain d1 d2 d4 where s:
    "assign_from df ''title'' (fillna (Str ''No title available'')) ''title'' = Inr d1"
    "assign_from d1 ''abstract'' (fillna (Str ''No abstract available'')) ''abstract'' = Inr d2"
    "(if ''publish_time'' \<in> set (columns d2) then
          bind_err (assign_from d2 ''publish_time'' (map (coerce_datetime td)) ''publish_time'') (\<lambda>df.
          assign_from df ''year'' (map dt_year) ''publish_time'')
        else Inr (setitem_scalar d2 ''year'' NaN)) = Inr d4"
    "assign_from d4 ''abstract_word_count'' (map word_count) ''abstract'' = Inr df'"
    unfolding load_data_def bind_err_Inr_iff by auto
  have "length (rows d4) = length (rows d2)"
    using s(3)
    by (auto simp: bind_err_Inr_iff setitem_scalar_def split: if_splits dest!: assign_from_Inr)
  with s(1,2,4) show ?thesis
    by (auto dest!: assign_from_Inr)
qed

lemma clean_row_steps:
  "clean_row td r =
     (let r2 = r(''abstract'' \<mapsto> (if cell_of r ''abstract'' = NaN
                  then Str ''No abstract available'' else cell_of r ''abstract''));
          r3 = r2(''title'' \<mapsto> (if cell_of r2 ''title'' = NaN
                  then Str ''No title available'' else cell_of r2 ''title''));
          r4 = r3(''publish_time'' \<mapsto> coerce_datetime td (cell_of r3 ''publish_time''));
          r5 = r4(''year'' \<mapsto> dt_year (cell_of r4 ''publish_time''))
      in r5(''abstract_word_count'' \<mapsto> word_count (cell_of r5 ''abstract'')))"
  by (simp add: clean_row_def Let_def cell_of_def)

lemma clean_batch_rows:
  assumes "''abstract'' \<in> set (columns df)" "''title'' \<in> set (columns df)"
    "''publish_time'' \<in> set (columns df)"
  shows "\<exists>df'. clean_batch td df = Inr df' \<and>
     rows df' = map (\<lambda>r. clean_row td (r |` (- set drop_cols))) (rows df) \<and>
     set (columns df') = (set (columns df) - set drop_cols) \<union> {''year'', ''abstract_word_count''}"
proof -
  define df1 where "df1 = drop_columns df drop_cols"
  define df2 where "df2 = setitem df1 ''abstract''
     (map (\<lambda>r. if cell_of r ''abstract'' = NaN then Str ''No abstract available''
                else cell_of r ''abstract'') (rows df1))"
  define df3 where "df3 = setitem df2 ''title''
     (map (\<lambda>r. if cell_of r ''title'' = NaN then Str ''No title available''
                else cell_of r ''title'') (rows df2))"
  define df4 where "df4 = setitem df3 ''publish_time''
     (map (\<lambda>r. coerce_datetime td (cell_of r ''publish_time'')) (rows df3))"
  define df5 where "df5 = setitem df4 ''year''
     (map (\<lambda>r. dt_year (cell_of r ''publish_time'')) (rows df4))"
  define df6 where "df6 = setitem df5 ''abstract_word_count''
     (map (\<lambda>r. word_count (cell_of r ''abstract'')) (rows df5))"
  have c1: "set (columns df1) = set (columns df) - set drop_cols"
    by (simp add: df1_def columns_drop)
  have in1: "''abstract'' \<in> set (columns df1)" "''title'' \<in> set (columns df1)"
    "''publish_time'' \<in> set (columns df1)"
    using assms by (simp_all add: c1 drop_cols_def)
  have c2: "set (columns df2) = insert ''abstract'' (set (columns df1))"
    by (simp add: df2_def columns_setitem)
  have c3: "set (columns df3) = insert ''title'' (set (columns df2))"
    by (simp add: df3_def columns_setitem)
  have c4: "set (columns df4) = insert ''publish_time'' (set (columns df3))"
    by (simp add: df4_def columns_setitem)
  have c5: "set (columns df5) = insert ''year'' (set (columns df4))"
    by (simp add: df5_def columns_setitem)
  have c6: "set (columns df6) = insert ''abstract_word_count'' (set (columns df5))"
    by (simp add: df6_def columns_setitem)
  have s2: "assign_from df1 ''abstract'' (fillna (Str ''No abstract available'')) ''abstract'' = Inr df2"
    using in1 by (simp add: fillna_map assign_from_map df2_def)
  have s3: "assign_from df2 ''title'' (fillna (Str ''No title available'')) ''title'' = Inr df3"
    using in1 by (simp add: fillna_map assign_from_map df3_def c2)
  have s4: "assign_from df3 ''publish_time'' (map (coerce_datetime td)) ''publish_time'' = Inr df4"
    using in1 by (simp add: assign_from_map df4_def c3 c2)
  have s5: "assign_from df4 ''year'' (map dt_year) ''publish_time'' = Inr df5"
    by (simp add: assign_from_map df5_def c4)
  have s6: "assign_from df5 ''abstract_word_count'' (map word_count) ''abstract'' = Inr df6"
    by (simp add: assign_from_map df6_def c5 c4 c3 c2)
  have run: "clean_batch td df = Inr df6"
    by (simp add: clean_batch_def bind_err_simps df1_def [symmetric] s2 s3 s4 s5 s6)
  have r1: "rows df1 = map (\<lambda>r. r |` (- set drop_cols)) (rows df)"
    by (simp add: df1_def drop_columns_def)
  have r2: "rows df2 = map (\<lambda>r. r(''abstract'' \<mapsto> (if cell_of r ''abstract'' = NaN
      then Str ''No abstract available'' else cell_of r ''abstract''))) (rows df1)"
    unfolding df2_def by (rule rows_setitem_map)
  have r3: "rows df3 = map (\<lambda>r. r(''title'' \<mapsto> (if cell_of r ''title'' = NaN
      then Str ''No title available'' else cell_of r ''title''))) (rows df2)"
    unfolding df3_def by (rule rows_setitem_map)
  have r4: "rows df4 = map (\<lambda>r. r(''publish_time'' \<mapsto>
      coerce_datetime td (cell_of r ''publish_time''))) (rows df3)"
    unfolding df4_def by (rule rows_setitem_map)
  have r5: "rows df5 = map (\<lambda>r. r(''year'' \<mapsto> dt_year (cell_of r ''publish_time''))) (rows df4)"
    unfolding df5_def by (rule rows_setitem_map)
  have r6': "rows df6 = map (\<lambda>r. r(''abstract_word_count'' \<mapsto>
      word_count (cell_of r ''abstract''))) (rows df5)"
    unfolding df6_def by (rule rows_setitem_map)
  have r6: "rows df6 = map (clean_row td) (rows df1)"
    unfolding r6' r5 r4 r3 r2 by (simp add: clean_row_steps Let_def o_def)
  have cols: "set (columns df6) =
      (set (columns df) - set drop_cols) \<union> {''year'', ''abstract_word_count''}"
    using in1 by (auto simp: c6 c5 c4 c3 c2 c1)
  show ?thesis using run r6 r1 cols by (simp add: o_def)
qed


lemma load_data_rows:
  assumes "''title'' \<in> set (columns df)" "''abstract'' \<in> set (columns df)"
  shows "\<exists>df'. load_data td df = Inr df' \<and>
     rows df' = map (if ''publish_time'' \<in> set (columns df) then clean_row td else load_row_plain)
                    (rows df) \<and>
     set (columns df') = set (columns df) \<union> {''year'', ''abstract_word_count''}"
proof -
  define df1 where "df1 = setitem df ''title''
     (map (\<lambda>r. if cell_of r ''title'' = NaN then Str ''No title available''
                else cell_of r ''title'') (rows df))"
  define df2 where "df2 = setitem df1 ''abstract''
     (map (\<lambda>r. if cell_of r ''abstract'' = NaN then Str ''No abstract available''
                else cell_of r ''abstract'') (rows df1))"
  define df3 where "df3 = setitem df2 ''publish_time''
     (map (\<lambda>r. coerce_datetime td (cell_of r ''publish_time'')) (rows df2))"
  define df4 where "df4 = (if ''publish_time'' \<in> set (columns df)
     then setitem df3 ''year'' (map (\<lambda>r. dt_year (cell_of r ''publish_time'')) (rows df3))
     else setitem_scalar df2 ''year'' NaN)"
  define df5 where "df5 = setitem df4 ''abstract_word_count''
     (map (\<lambda>r. word_count (cell_of r ''abstract'')) (rows df4))"
  have c1: "set (columns df1) = set (columns df)"
    using assms by (auto simp: df1_def columns_setitem)
  have c2: "set (columns df2) = set (columns df)"
    using assms by (auto simp: df2_def columns_setitem c1)
  have c3: "set (columns df3) = insert ''publish_time'' (set (columns df))"
    by (simp add: df3_def columns_setitem c2)
  have c4: "set (columns df4) = insert ''year'' (set (columns df))"
    by (auto simp: df4_def columns_setitem columns_setitem_scalar c3 c2)
  have c5: "set (columns df5) = set (columns df) \<union> {''year'', ''abstract_word_count''}"
    by (auto simp: df5_def columns_setitem c4)
  have s1: "assign_from df ''title'' (fillna (Str ''No title available'')) ''title'' = Inr df1"
    using assms by (simp add: fillna_map assign_from_map df1_def)
  have s2: "assign_from df1 ''abstract'' (fillna (Str ''No abstract available'')) ''abstract'' = Inr df2"
    using assms by (simp add: fillna_map assign_from_map df2_def c1)
  have s3: "''publish_time'' \<in> set (columns df) \<Longrightarrow>
      assign_from df2 ''publish_time'' (map (coerce_datetime td)) ''publish_time'' = Inr df3"
    by (simp add: assign_from_map df3_def c2)
  have s4: "''publish_time'' \<in> set (columns df) \<Longrightarrow>
      assign_from df3 ''year'' (map dt_year) ''publish_time'' = Inr df4"
    by (simp add: assign_from_map df4_def c3)
  have s4': "''publish_time'' \<notin> set (columns df) \<Longrightarrow> setitem_scalar df2 ''year'' NaN = df4"
    by (simp add: df4_def)
  have s5: "assign_from df4 ''abstract_word_count'' (map word_count) ''abstract'' = Inr df5"
    using assms by (simp add: assign_from_map df5_def c4)
  have run: "load_data td df = Inr df5"
    by (cases "''publish_time'' \<in> set (columns df)")
      (simp_all add: load_data_def bind_err_simps s1 s2 c2 s3 s4 s4' s5)
  have r1: "rows df1 = map (\<lambda>r. r(''title'' \<mapsto> (if cell_of r ''title'' = NaN
      then Str ''No title available'' else cell_of r ''title''))) (rows df)"
    unfolding df1_def by (rule rows_setitem_map)
  have r2: "rows df2 = map (\<lambda>r. r(''abstract'' \<mapsto> (if cell_of r ''abstract'' = NaN
      then Str ''No abstract available'' else cell_of r ''abstract''))) (rows df1)"
    unfolding df2_def by (rule rows_setitem_map)
  have r3: "rows df3 = map (\<lambda>r. r(''publish_time'' \<mapsto>
      coerce_datetime td (cell_of r ''publish_time''))) (rows df2)"
    unfolding df3_def by (rule rows_setitem_map)
  have r4: "''publish_time'' \<in> set (columns df) \<Longrightarrow>
      rows df4 = map (\<lambda>r. r(''year'' \<mapsto> dt_year (cell_of r ''publish_time''))) (rows df3)"
    unfolding df4_def by (simp add: rows_setitem_map)
  have r4': "''publish_time'' \<notin> set (columns df) \<Longrightarrow>
      rows df4 = map (\<lambda>r. r(''year'' \<mapsto> NaN)) (rows df2)"
    unfolding df4_def by (simp add: setitem_scalar_def)
  have r5: "rows df5 = map (\<lambda>r. r(''abstract_word_count'' \<mapsto>
      word_count (cell_of r ''abstract''))) (rows df4)"
    unfolding df5_def by (rule rows_setitem_map)
  have rows: "rows df5 =
      map (if ''publish_time'' \<in> set (columns df) then clean_row td else load_row_plain) (rows df)"
  proof (cases "''publish_time'' \<in> set (columns df)")
    case True
    show ?thesis
      unfolding r5 r4 [OF True] r3 r2 r1 using True
      by (auto simp: clean_row_def load_row_plain_def Let_def o_def cell_of_def fun_eq_iff)
  next
    case False
    show ?thesis
      unfolding r5 r4' [OF False] r2 r1 using False
      by (auto simp: clean_row_def load_row_plain_def Let_def o_def cell_of_def fun_eq_iff)
  qed
  show ?thesis using run rows c5 by simp
qed


lemma word_count_sentinel: "word_count (Str ''No abstract available'') = Num 3"
  by (simp add: word_count_def py_str_def py_split_def is_space_def)

text \<open>
  Claim C2. Cleaning never drops a record. Whenever the batch cleaner or \<open>load_data\<close>
  returns a frame, it has as many rows as the raw frame, the empty one included; and both do
  return one as soon as the raw frame has the columns they read (\<open>title\<close>, \<open>abstract\<close>, and
  for the batch script \<open>publish_time\<close>).
\<close>

theorem cleaning_keeps_every_record:
  "(clean_batch to_datetime raw = Inr df \<longrightarrow> length (rows df) = length (rows raw)) \<and>
   (load_data to_datetime raw = Inr df' \<longrightarrow> length (rows df') = length (rows raw)) \<and>
   ({''title'', ''abstract'', ''publish_time''} \<subseteq> set (columns raw) \<longrightarrow>
      (\<exists>d. clean_batch to_datetime raw = Inr d \<and> length (rows d) = length (rows raw))) \<and>
   ({''title'', ''abstract''} \<subseteq> set (columns raw) \<longrightarrow>
      (\<exists>d. load_data to_datetime raw = Inr d \<and> length (rows d) = length (rows raw)))"
proof (intro conjI impI)
  assume "clean_batch to_datetime raw = Inr df"
  then show "length (rows df) = length (rows raw)" by (rule clean_batch_length)
next
  assume "load_data to_datetime raw = Inr df'"
  then show "length (rows df') = length (rows raw)" by (rule load_data_length)
next
  assume "{''title'', ''abstract'', ''publish_time''} \<subseteq> set (columns raw)"
  then obtain d where "clean_batch to_datetime raw = Inr d"
    using clean_batch_rows [of raw to_datetime] by auto
  then show "\<exists>d. clean_batch to_datetime raw = Inr d \<and> length (rows d) = length (rows raw)"
    using clean_batch_length by blast
next
  assume "{''title'', ''abstract''} \<subseteq> set (columns raw)"
  then obtain d where "load_data to_datetime raw = Inr d"
    using load_data_rows [of raw to_datetime] by auto
  then show "\<exists>d. load_data to_datetime raw = Inr d \<and> length (rows d) = length (rows raw)"
    using load_data_length by blast
qed

theorem cleaning_keeps_every_record_witness:
  "(\<exists>d. clean_batch (\<lambda>c. None) raw_empty = Inr d \<and> length (rows d) = 0) \<and>
   (\<exists>d. load_data (\<lambda>c. None) raw_empty = Inr d \<and> length (rows d) = 0) \<and>
   (\<exists>d. clean_batch (\<lambda>c. None) raw_scenario = Inr d \<and> length (rows d) = 1) \<and>
   (\<exists>d. load_data (\<lambda>c. None) raw_scenario = Inr d \<and> length (rows d) = 1)"
  using cleaning_keeps_every_record [of "\<lambda>c. None" raw_empty]
    cleaning_keeps_every_record [of "\<lambda>c. None" raw_scenario]
  by (simp add: raw_empty_def raw_scenario_def)


section \<open>The scenario record\<close>

lemma scenario_row:
  assumes "cell_of r ''title'' = NaN" "cell_of r ''abstract'' = NaN"
    "to_datetime (cell_of r ''publish_time'') = None" "cell_of r ''journal'' = Str ''J1''"
  shows "scenario_cleaned (clean_row to_datetime r)"
    and "scenario_cleaned (clean_row to_datetime (r |` (- set drop_cols)))"
  using assms
  by (simp_all add: scenario_cleaned_def clean_row_def Let_def cell_of_def coerce_datetime_def
      dt_year_def word_count_sentinel drop_cols_def restrict_map_def)

text \<open>
  Claim C3. A raw record with missing title and abstract, the publish time
  \<open>"not-a-date"\<close> that the tolerant parser cannot read, and journal \<open>"J1"\<close>, wherever it
  stands in a frame that has the three columns the cleaners read, comes out of both cleaners
  with the two placeholder texts, word count 3, missing publish time and year, and its
  journal; the cleaner returns a frame, it raises nothing.
\<close>
theorem cleaner_scenario:
  assumes "{''title'', ''abstract'', ''publish_time''} \<subseteq> set (columns raw)"
    and "i < length (rows raw)"
    and "cell_of (rows raw ! i) ''title'' = NaN"
    and "cell_of (rows raw ! i) ''abstract'' = NaN"
    and "cell_of (rows raw ! i) ''publish_time'' = Str ''not-a-date''"
    and "to_datetime (Str ''not-a-date'') = None"
    and "cell_of (rows raw ! i) ''journal'' = Str ''J1''"
  shows "(\<exists>df. clean_batch to_datetime raw = Inr df \<and> length (rows df) = length (rows raw) \<and>
             scenario_cleaned (rows df ! i)) \<and>
         (\<exists>df. load_data to_datetime raw = Inr df \<and> length (rows df) = length (rows raw) \<and>
             scenario_cleaned (rows df ! i))"
proof -
  have parse: "to_datetime (cell_of (rows raw ! i) ''publish_time'') = None"
    using assms(5,6) by simp
  obtain b where b: "clean_batch to_datetime raw = Inr b"
    "rows b = map (\<lambda>r. clean_row to_datetime (r |` (- set drop_cols))) (rows raw)"
    using clean_batch_rows [of raw to_datetime] assms(1) by auto
  obtain l where l: "load_data to_datetime raw = Inr l"
    "rows l = map (clean_row to_datetime) (rows raw)"
    using load_data_rows [of raw to_datetime] assms(1) by auto
  have "scenario_cleaned (rows b ! i)"
    using assms(2,3,4,7) parse scenario_row(2) [of "rows raw ! i" to_datetime]
    by (simp add: b(2))
  moreover have "scenario_cleaned (rows l ! i)"
    using assms(2,3,4,7) parse scenario_row(1) [of "rows raw ! i" to_datetime]
    by (simp add: l(2))
  ultimately show ?thesis using b l by simp
qed

theorem cleaner_scenario_witness:
  "(\<exists>df. clean_batch (\<lambda>c. None) raw_scenario = Inr df \<and> length (rows df) = 1 \<and>
       scenario_cleaned (rows df ! 0)) \<and>
   (\<exists>df. load_data (\<lambda>c. None) raw_scenario = Inr df \<and> length (rows df) = 1 \<and>
       scenario_cleaned (rows df ! 0))"
  using cleaner_scenario [of raw_scenario 0 "\<lambda>c. None"]
  by (simp add: raw_scenario_def cell_of_def)



section \<open>Which columns a cleaned frame has\<close>

lemma clean_batch_columns:
  assumes "clean_batch td raw = Inr df"
  shows "set (columns df) = (set (columns raw) - set drop_cols) \<union> {''year'', ''abstract_word_count''}"
    and "rows df = map (\<lambda>r. clean_row td (r |` (- set drop_cols))) (rows raw)"
proof -
  from assms obtain d2 d3 d4 where
    "assign_from (drop_columns raw drop_cols) ''abstract'' (fillna (Str ''No abstract available'')) ''abstract'' = Inr d2"
    "assign_from d2 ''title'' (fillna (Str ''No title available'')) ''title'' = Inr d3"
    "assign_from d3 ''publish_time'' (map (coerce_datetime td)) ''publish_time'' = Inr d4"
    unfolding clean_batch_def bind_err_Inr_iff by auto
  then have "''abstract'' \<in> set (columns raw)" "''title'' \<in> set (columns raw)"
    "''publish_time'' \<in> set (columns raw)"
    by (auto dest!: assign_from_Inr simp: columns_drop)
  from clean_batch_rows [OF this, of td] assms
  show "set (columns df) = (set (columns raw) - set drop_cols) \<union> {''year'', ''abstract_word_count''}"
    and "rows df = map (\<lambda>r. clean_row td (r |` (- set drop_cols))) (rows raw)"
    by auto
qed

lemma load_data_columns:
  assumes "load_data td raw = Inr df"
  shows "set (columns df) = set (columns raw) \<union> {''year'', ''abstract_word_count''}"
    and "rows df = map (if ''publish_time'' \<in> set (columns raw) then clean_row td
                        else load_row_plain) (rows raw)"
proof -
  from assms obtain d1 d2 where
    "assign_from raw ''title'' (fillna (Str ''No title available'')) ''title'' = Inr d1"
    "assign_from d1 ''abstract'' (fillna (Str ''No abstract available'')) ''abstract'' = Inr d2"
    unfolding load_data_def bind_err_Inr_iff by auto
  then have "''title'' \<in> set (columns raw)" "''abstract'' \<in> set (columns raw)"
    by (auto dest!: assign_from_Inr)
  from load_data_rows [OF this, of td] assms
  show "set (columns df) = set (columns raw) \<union> {''year'', ''abstract_word_count''}"
    and "rows df = map (if ''publish_time'' \<in> set (columns raw) then clean_row td
                        else load_row_plain) (rows raw)"
    by auto
qed

lemma clean_row_other:
  "c \<notin> {''abstract'', ''title'', ''publish_time'', ''year'', ''abstract_word_count''} \<Longrightarrow>
   clean_row td r c = r c"
  by (simp add: clean_row_def Let_def)

lemma load_row_plain_other:
  "c \<notin> {''abstract'', ''title'', ''year'', ''abstract_word_count''} \<Longrightarrow>
   load_row_plain r c = r c"
  by (simp add: load_row_plain_def Let_def)

text \<open>
  Claim C6 says the sparse columns are absent after cleaning in both pipelines. In the
  explorer they are not: \<open>load_data\<close> has no drop statement, and the scenario frame keeps
  its \<open>sha\<close> column and the value in it.
\<close>
theorem load_data_keeps_sha_counterexample:
  "\<exists>df. load_data (\<lambda>c. None) raw_scenario = Inr df \<and> ''sha'' \<in> set (columns df) \<and>
        map (\<lambda>r. r ''sha'') (rows df) = [Some (Str ''ab12'')]"
proof -
  obtain df where df: "load_data (\<lambda>c. None) raw_scenario = Inr df"
    "rows df = map (if ''publish_time'' \<in> set (columns raw_scenario) then clean_row (\<lambda>c. None)
                        else load_row_plain) (rows raw_scenario)"
    "set (columns df) = set (columns raw_scenario) \<union> {''year'', ''abstract_word_count''}"
    using load_data_rows [of raw_scenario "\<lambda>c. None"] by (auto simp: raw_scenario_def)
  show ?thesis
    using df by (simp add: raw_scenario_def clean_row_def Let_def)
qed

text \<open>
  Claim C6, amended. In the batch pipeline no cleaned frame has one of the seven sparse
  columns, as a label or as a cell of a row, and their absence from the input is no error:
  the cleaner returns whenever the three columns it reads are there. \<open>load_data\<close> does
  minimal cleaning, as its docstring says: it keeps every input column, the sparse ones with
  their values, and adds \<open>year\<close> and \<open>abstract_word_count\<close>.
\<close>
theorem sparse_columns_dropped_by_batch_only:
  "(clean_batch to_datetime raw = Inr df \<longrightarrow>
      set (columns df) \<inter> set drop_cols = {} \<and>
      (\<forall>r \<in> set (rows df). \<forall>c \<in> set drop_cols. r c = None)) \<and>
   ({''title'', ''abstract'', ''publish_time''} \<subseteq> set (columns raw) \<longrightarrow>
      (\<exists>d. clean_batch to_datetime raw = Inr d)) \<and>
   (load_data to_datetime raw = Inr df' \<longrightarrow>
      set (columns df') = set (columns raw) \<union> {''year'', ''abstract_word_count''} \<and>
      (\<forall>c \<in> set drop_cols. map (\<lambda>r. r c) (rows df') = map (\<lambda>r. r c) (rows raw)))"
proof (intro conjI impI)
  assume b: "clean_batch to_datetime raw = Inr df"
  show "set (columns df) \<inter> set drop_cols = {}"
    using clean_batch_columns(1) [OF b] by (auto simp: drop_cols_def)
  show "\<forall>r \<in> set (rows df). \<forall>c \<in> set drop_cols. r c = None"
    unfolding clean_batch_columns(2) [OF b]
    by (auto simp: clean_row_other drop_cols_def restrict_map_def)
next
  assume "{''title'', ''abstract'', ''publish_time''} \<subseteq> set (columns raw)"
  then show "\<exists>d. clean_batch to_datetime raw = Inr d"
    using clean_batch_rows [of raw to_datetime] by auto
next
  assume l: "load_data to_datetime raw = Inr df'"
  show "set (columns df') = set (columns raw) \<union> {''year'', ''abstract_word_count''}"
    by (rule load_data_columns(1) [OF l])
  show "\<forall>c \<in> set drop_cols. map (\<lambda>r. r c) (rows df') = map (\<lambda>r. r c) (rows raw)"
    unfolding load_data_columns(2) [OF l]
    by (auto simp: clean_row_other load_row_plain_other drop_cols_def)
qed

theorem sparse_columns_dropped_by_batch_only_witness:
  "(\<exists>d. clean_batch (\<lambda>c. None) raw_scenario = Inr d \<and> ''sha'' \<notin> set (columns d) \<and>
        (\<forall>r \<in> set (rows d). r ''sha'' = None)) \<and>
   (\<exists>d. clean_batch (\<lambda>c. None) raw_empty = Inr d) \<and>
   (\<exists>d. load_data (\<lambda>c. None) raw_scenario = Inr d \<and> ''sha'' \<in> set (columns d))"
proof -
  have "\<exists>b. clean_batch (\<lambda>c. None) raw_scenario = Inr b"
    using sparse_columns_dropped_by_batch_only
      [of "\<lambda>c. None" raw_scenario, THEN conjunct2, THEN conjunct1]
    by (simp add: raw_scenario_def)
  then obtain b where b: "clean_batch (\<lambda>c. None) raw_scenario = Inr b" ..
  have "\<exists>e. clean_batch (\<lambda>c. None) raw_empty = Inr e"
    using sparse_columns_dropped_by_batch_only
      [of "\<lambda>c. None" raw_empty, THEN conjunct2, THEN conjunct1]
    by (simp add: raw_empty_def)
  then obtain e where e: "clean_batch (\<lambda>c. None) raw_empty = Inr e" ..
  obtain l where l: "load_data (\<lambda>c. None) raw_scenario = Inr l"
    using load_data_rows [of raw_scenario "\<lambda>c. None"] by (auto simp: raw_scenario_def)
  have "''sha'' \<notin> set (columns b) \<and> (\<forall>r \<in> set (rows b). r ''sha'' = None)"
    using sparse_columns_dropped_by_batch_only
      [of "\<lambda>c. None" raw_scenario b, THEN conjunct1] b
    by (auto simp: drop_cols_def)
  moreover have "''sha'' \<in> set (columns l)"
    using sparse_columns_dropped_by_batch_only
      [of "\<lambda>c. None" raw_scenario _ l, THEN conjunct2, THEN conjunct2] l
    by (simp add: raw_scenario_def)
  ultimately show ?thesis using b e l by blast
qed



lemma clean_batch_requires:
  assumes "clean_batch td raw = Inr df"
  shows "{''title'', ''abstract'', ''publish_time''} \<subseteq> set (columns raw)"
proof -
  from assms obtain d2 d3 d4 where
    "assign_from (drop_columns raw drop_cols) ''abstract'' (fillna (Str ''No abstract available'')) ''abstract'' = Inr d2"
    "assign_from d2 ''title'' (fillna (Str ''No title available'')) ''title'' = Inr d3"
    "assign_from d3 ''publish_time'' (map (coerce_datetime td)) ''publish_time'' = Inr d4"
    unfolding clean_batch_def bind_err_Inr_iff by auto
  then show ?thesis
    by (auto dest!: assign_from_Inr simp: columns_drop)
qed



section \<open>The Filter Engine\<close>

lemma filter_zip_map: "map snd (filter fst (zip (map p xs) xs)) = filter p xs"
  by (induction xs) simp_all

lemma rows_select_rows:
  "rows (select_rows df (map (\<lambda>r. p (cell_of r c)) (rows df))) =
     filter (\<lambda>r. p (cell_of r c)) (rows df)"
  by (simp add: select_rows_def filter_zip_map)

lemma columns_select_rows: "columns (select_rows df keep) = columns df"
  by (simp add: select_rows_def)

lemma select_rows_filter:
  "select_rows df (map (\<lambda>r. p (cell_of r c)) (rows df)) =
     df\<lparr>rows := filter (\<lambda>r. p (cell_of r c)) (rows df)\<rparr>"
  by (simp add: select_rows_def filter_zip_map)

lemma select_rows_update:
  "select_rows (df\<lparr>rows := xs\<rparr>) (map p xs) = df\<lparr>rows := filter p xs\<rparr>"
  by (simp add: select_rows_def filter_zip_map)

lemma passes_iff:
  "passes yr sel =
     (\<lambda>r. between (fst yr) (snd yr) (cell_of r ''year'') \<and>
          (sel = [] \<or> isin sel (cell_of r ''journal'')))"
  by (rule ext) (simp add: passes_def between_def isin_def)

lemma apply_filters_ok:
  assumes "''year'' \<in> set (columns df)" and "''journal'' \<in> set (columns df) \<or> sel = []"
  shows "apply_filters df yr sel = Inr (df\<lparr>rows := filter (passes yr sel) (rows df)\<rparr>)"
proof (cases "sel = []")
  case True
  then show ?thesis
    using assms(1)
    by (simp add: apply_filters_def bind_err_simps getitem_def o_def select_rows_filter passes_iff)
next
  case False
  with assms(2) have j: "''journal'' \<in> set (columns df)" by simp
  show ?thesis
    using assms(1) j False
    by (simp add: apply_filters_def bind_err_simps getitem_def o_def select_rows_filter
        select_rows_update passes_iff)
qed

lemma apply_filters_raises:
  assumes "''journal'' \<notin> set (columns df)" and "sel \<noteq> []"
  shows "apply_filters df yr sel = Inl (KeyError ''journal'')"
  using assms
  by (simp add: apply_filters_def bind_err_simps getitem_def o_def select_rows_filter)

lemma apply_filters_Inr:
  assumes "apply_filters df yr sel = Inr v" and "''year'' \<in> set (columns df)"
  shows "v = df\<lparr>rows := filter (passes yr sel) (rows df)\<rparr>"
proof (cases "''journal'' \<in> set (columns df) \<or> sel = []")
  case True
  from apply_filters_ok [OF assms(2) True, of yr] assms(1) show ?thesis by simp
next
  case False
  then have "apply_filters df yr sel = Inl (KeyError ''journal'')"
    by (simp add: apply_filters_raises)
  with assms(1) show ?thesis by simp
qed


lemma load_data_has_year:
  assumes "load_data td raw = Inr df"
  shows "''year'' \<in> set (columns df)"
  using load_data_columns(1) [OF assms] by simp

text \<open>
  Claim C1. On the canonical record set that \<open>load_data\<close> returned, and for every year
  range and every journal selection the widgets can offer (a non-empty selection needs the
  \<open>journal\<close> column its options are drawn from), the filter statements return the frame
  whose rows are exactly the records that pass, in their original order: the year is an
  integer within the range, and the selection is empty or holds the record's journal. A
  record whose year is missing is in no view, whatever the range.
\<close>
theorem filter_inclusion:
  assumes "load_data to_datetime raw = Inr df"
    and "''journal'' \<in> set (columns df) \<or> journal_set = []"
  shows "\<exists>view. apply_filters df (year_min, year_max) journal_set = Inr view \<and>
           columns view = columns df \<and>
           rows view = filter (passes (year_min, year_max) journal_set) (rows df) \<and>
           (\<forall>r \<in> set (rows df). cell_of r ''year'' = NaN \<longrightarrow> r \<notin> set (rows view))"
proof -
  have y: "''year'' \<in> set (columns df)" using assms(1) by (rule load_data_has_year)
  have "\<forall>r \<in> set (rows df). cell_of r ''year'' = NaN \<longrightarrow> \<not> passes (year_min, year_max) journal_set r"
    by (simp add: passes_def)
  then show ?thesis
    using apply_filters_ok [OF y assms(2), of "(year_min, year_max)"] by simp
qed

theorem filter_inclusion_witness:
  "\<exists>df view. load_data year_parser raw_years = Inr df \<and>
      apply_filters df (2020, 2020) [] = Inr view \<and>
      map (\<lambda>r. cell_of r ''title'') (rows view) = [Str ''t2'', Str ''t3''] \<and>
      map (\<lambda>r. cell_of r ''year'') (rows df) = [Num 2019, Num 2020, Num 2020, NaN]"
proof -
  obtain df where df: "load_data year_parser raw_years = Inr df"
    "rows df = map (clean_row year_parser) (rows raw_years)"
    using load_data_rows [of raw_years year_parser] by (auto simp: raw_years_def)
  obtain view where v: "apply_filters df (2020, 2020) [] = Inr view"
    "rows view = filter (passes (2020, 2020) []) (rows df)"
    using filter_inclusion [OF df(1), of "[]" 2020 2020] by auto
  have "map (\<lambda>r. cell_of r ''title'') (rows view) = [Str ''t2'', Str ''t3'']"
    unfolding v(2) df(2)
    by (simp add: raw_years_def passes_def clean_row_def Let_def cell_of_def coerce_datetime_def
        dt_year_def year_parser_def is_digit_def digit_value_def)
  moreover have "map (\<lambda>r. cell_of r ''year'') (rows df) = [Num 2019, Num 2020, Num 2020, NaN]"
    unfolding df(2)
    by (simp add: raw_years_def clean_row_def Let_def cell_of_def coerce_datetime_def
        dt_year_def year_parser_def is_digit_def digit_value_def)
  ultimately show ?thesis using df(1) v(1)
    by (intro exI [of _ df] exI [of _ view]) simp
qed

text \<open>
  Claim C10. When the loaded sample has no \<open>publish_time\<close> column, \<open>load_data\<close> sets
  the year of every record to the missing value, and since the year filter always runs,
  every Filtered View is empty, for any year range and journal selection: the filter
  statements return a frame without rows, and no frame they return has a row.
\<close>
theorem undated_sample_has_empty_views:
  assumes "''publish_time'' \<notin> set (columns raw)"
    and "load_data to_datetime raw = Inr df"
  shows "(\<forall>r \<in> set (rows df). cell_of r ''year'' = NaN) \<and>
         (''journal'' \<in> set (columns raw) \<or> journal_set = [] \<longrightarrow>
            (\<exists>view. apply_filters df year_range journal_set = Inr view \<and> rows view = [])) \<and>
         (apply_filters df year_range journal_set = Inr view' \<longrightarrow> rows view' = [])"
proof -
  have r: "rows df = map load_row_plain (rows raw)"
    using load_data_columns(2) [OF assms(2)] assms(1) by simp
  have c: "set (columns df) = set (columns raw) \<union> {''year'', ''abstract_word_count''}"
    by (rule load_data_columns(1) [OF assms(2)])
  have nan: "\<forall>r \<in> set (rows df). cell_of r ''year'' = NaN"
    by (simp add: r load_row_plain_def Let_def cell_of_def)
  then have none: "filter (passes year_range journal_set) (rows df) = []"
    by (simp add: passes_def filter_empty_conv)
  have y: "''year'' \<in> set (columns df)" using c by simp
  have "''journal'' \<in> set (columns raw) \<or> journal_set = [] \<longrightarrow>
      (\<exists>view. apply_filters df year_range journal_set = Inr view \<and> rows view = [])"
  proof
    assume "''journal'' \<in> set (columns raw) \<or> journal_set = []"
    then have "''journal'' \<in> set (columns df) \<or> journal_set = []" using c by auto
    from apply_filters_ok [OF y this, of year_range] none
    show "\<exists>view. apply_filters df year_range journal_set = Inr view \<and> rows view = []" by simp
  qed
  moreover have "apply_filters df year_range journal_set = Inr view' \<longrightarrow> rows view' = []"
    using apply_filters_Inr [of df year_range journal_set view', OF _ y] none by auto
  ultimately show ?thesis using nan by blast
qed

theorem undated_sample_has_empty_views_witness:
  "\<exists>df. load_data year_parser raw_undated = Inr df \<and> length (rows df) = 2 \<and>
      (\<forall>r \<in> set (rows df). cell_of r ''year'' = NaN) \<and>
      (\<exists>view. apply_filters df (1900, 2100) [] = Inr view \<and> rows view = []) \<and>
      (\<exists>view. apply_filters df (2019, 2022) [Str ''J1''] = Inr view \<and> rows view = [])"
proof -
  obtain df where df: "load_data year_parser raw_undated = Inr df"
    "rows df = map load_row_plain (rows raw_undated)"
    using load_data_rows [of raw_undated year_parser] by (auto simp: raw_undated_def)
  have p: "''publish_time'' \<notin> set (columns raw_undated)" by (simp add: raw_undated_def)
  have j: "''journal'' \<in> set (columns raw_undated)" by (simp add: raw_undated_def)
  note T = undated_sample_has_empty_views [OF p df(1)]
  have "length (rows df) = 2" by (simp add: df(2) raw_undated_def)
  moreover have "\<forall>r \<in> set (rows df). cell_of r ''year'' = NaN"
    using T [THEN conjunct1] .
  moreover have "\<exists>view. apply_filters df (1900, 2100) [] = Inr view \<and> rows view = []"
    using T [of "[]" "(1900, 2100)", THEN conjunct2, THEN conjunct1] by simp
  moreover have "\<exists>view. apply_filters df (2019, 2022) [Str ''J1''] = Inr view \<and> rows view = []"
    using T [of "[Str ''J1'']" "(2019, 2022)", THEN conjunct2, THEN conjunct1] j by simp
  ultimately show ?thesis using df(1)
    by (intro exI [of _ df]) simp
qed



section \<open>The filter statements on the object store\<close>

lemma bind_filtered_alloc:
  "var_df (bind_filtered (alloc d s)) = var_df s"
  "next_ref (bind_filtered (alloc d s)) = Suc (next_ref s)"
  "var_df_filtered (bind_filtered (alloc d s)) = next_ref s"
  "heap (bind_filtered (alloc d s)) = (heap s)(next_ref s := d)"
  by (simp_all add: bind_filtered_def alloc_def)

lemma year_filter_frame:
  "var_df (year_filter yr s) = var_df s"
  "next_ref s \<le> next_ref (year_filter yr s)"
  "a < next_ref s \<Longrightarrow> heap (year_filter yr s) a = heap s a"
  by (simp_all add: year_filter_def getitem_def index_rows_def bind_filtered_alloc)

lemma year_filter_view:
  "heap (year_filter yr s) (var_df_filtered (year_filter yr s)) =
     (if ''year'' \<in> set (columns (heap s (var_df_filtered s)))
      then select_rows (heap s (var_df_filtered s))
             (map (between (fst yr) (snd yr))
                (map (\<lambda>r. cell_of r ''year'') (rows (heap s (var_df_filtered s)))))
      else heap s (var_df_filtered s))"
  by (simp add: year_filter_def getitem_def index_rows_def bind_filtered_alloc)

lemma journal_filter_frame:
  "var_df (fst (journal_filter sel s)) = var_df s"
  "next_ref s \<le> next_ref (fst (journal_filter sel s))"
  "a < next_ref s \<Longrightarrow> heap (fst (journal_filter sel s)) a = heap s a"
  by (simp_all add: journal_filter_def getitem_def index_rows_def bind_filtered_alloc)

lemma journal_filter_view:
  "(case snd (journal_filter sel s) of
      None \<Rightarrow> Inr (heap (fst (journal_filter sel s)) (var_df_filtered (fst (journal_filter sel s))))
    | Some e \<Rightarrow> Inl e) =
   (if sel \<noteq> [] then
      bind_err (getitem (heap s (var_df_filtered s)) ''journal'') (\<lambda>j.
        Inr (select_rows (heap s (var_df_filtered s)) (map (isin sel) j)))
    else Inr (heap s (var_df_filtered s)))"
  by (simp add: journal_filter_def getitem_def index_rows_def bind_filtered_alloc bind_err_def)

lemma run_filters_frame:
  assumes "var_df s < next_ref s"
  shows "var_df (fst (run_filters spec s)) = var_df s"
    and "next_ref s \<le> next_ref (fst (run_filters spec s))"
    and "a < next_ref s \<Longrightarrow> heap (fst (run_filters spec s)) a = heap s a"
proof -
  define s1 where "s1 = bind_filtered (copy_frame (var_df s) s)"
  define s2 where "s2 = year_filter (fst spec, fst (snd spec)) s1"
  have r: "run_filters spec s = journal_filter (snd (snd spec)) s2"
    by (simp add: run_filters_def s1_def s2_def)
  have n1: "next_ref s1 = Suc (next_ref s)" and v1: "var_df s1 = var_df s"
    and h1: "heap s1 = (heap s)(next_ref s := heap s (var_df s))"
    by (simp_all add: s1_def copy_frame_def bind_filtered_alloc)
  have n2: "next_ref s1 \<le> next_ref s2" and v2: "var_df s2 = var_df s1"
    by (simp_all add: s2_def year_filter_frame)
  show "var_df (fst (run_filters spec s)) = var_df s"
    by (simp add: r journal_filter_frame v2 v1)
  show "next_ref s \<le> next_ref (fst (run_filters spec s))"
    using journal_filter_frame(2) [of s2 "snd (snd spec)"] n2 n1 by (simp add: r)
  show "heap (fst (run_filters spec s)) a = heap s a" if "a < next_ref s"
  proof -
    from that n1 n2 have "a < next_ref s1" "a < next_ref s2" by simp_all
    then have "heap (fst (run_filters spec s)) a = heap s1 a"
      by (simp add: r journal_filter_frame s2_def year_filter_frame)
    also have "\<dots> = heap s a" using that by (simp add: h1)
    finally show ?thesis .
  qed
qed

lemma run_filters_view:
  assumes "var_df s < next_ref s"
  shows "(case snd (run_filters spec s) of
            None \<Rightarrow> Inr (heap (fst (run_filters spec s)) (var_df_filtered (fst (run_filters spec s))))
          | Some e \<Rightarrow> Inl e) =
         apply_filters (heap s (var_df s)) (fst spec, fst (snd spec)) (snd (snd spec))"
proof -
  define s1 where "s1 = bind_filtered (copy_frame (var_df s) s)"
  define s2 where "s2 = year_filter (fst spec, fst (snd spec)) s1"
  have r: "run_filters spec s = journal_filter (snd (snd spec)) s2"
    by (simp add: run_filters_def s1_def s2_def)
  have d1: "heap s1 (var_df_filtered s1) = heap s (var_df s)"
    by (simp add: s1_def copy_frame_def bind_filtered_alloc)
  show ?thesis
    unfolding r journal_filter_view
    by (simp add: s2_def year_filter_view d1 apply_filters_def bind_err_def getitem_def)
qed


lemma reruns_frame:
  "var_df s < next_ref s \<Longrightarrow>
   var_df (reruns specs s) = var_df s \<and> next_ref s \<le> next_ref (reruns specs s) \<and>
   (\<forall>a < next_ref s. heap (reruns specs s) a = heap s a)"
proof (induction specs arbitrary: s)
  case Nil
  then show ?case by simp
next
  case (Cons spec specs)
  let ?s1 = "fst (run_filters spec s)"
  note f = run_filters_frame [OF Cons.prems, where spec = spec]
  have inv: "var_df ?s1 < next_ref ?s1" using f(1,2) Cons.prems by simp
  from Cons.IH [OF inv] f Cons.prems show ?case by auto
qed

text \<open>
  Claim C8. With the frames held as objects in a store, any sequence of reruns of the filter
  statements, each with its own Filter Spec, leaves the name \<open>df\<close> bound to the same
  object and that object, like every object that existed before, with the content it had.
  The view a further rerun binds to \<open>df_filtered\<close> is the filter of that unmodified
  content by the rerun's own spec: it is computed afresh, not from an earlier view. When the
  journal statement raises, the rerun stops with that error and still has written nothing.
\<close>
theorem filters_leave_record_set_unchanged:
  assumes "var_df s < next_ref s"
  shows "var_df (reruns specs s) = var_df s \<and>
         heap (reruns specs s) (var_df s) = heap s (var_df s) \<and>
         (\<forall>a < next_ref s. heap (reruns specs s) a = heap s a) \<and>
         (case snd (run_filters spec (reruns specs s)) of
            None \<Rightarrow> Inr (heap (fst (run_filters spec (reruns specs s)))
                          (var_df_filtered (fst (run_filters spec (reruns specs s)))))
          | Some e \<Rightarrow> Inl e) =
           apply_filters (heap s (var_df s)) (fst spec, fst (snd spec)) (snd (snd spec))"
proof -
  note f = reruns_frame [OF assms, of specs]
  have inv: "var_df (reruns specs s) < next_ref (reruns specs s)" using f assms by simp
  have same: "heap (reruns specs s) (var_df (reruns specs s)) = heap s (var_df s)"
    using f assms by simp
  show ?thesis
    using f assms run_filters_view [OF inv, of spec] by (simp add: same)
qed

theorem filters_leave_record_set_unchanged_witness:
  "heap (reruns [(2019, 2019, []), (2000, 2030, [Str ''J2''])] session0) 0 = heap session0 0 \<and>
   snd (run_filters (2020, 2020, []) (reruns [(2019, 2019, []), (2000, 2030, [Str ''J2''])] session0)) = None \<and>
   map (\<lambda>r. cell_of r ''journal'')
     (rows (heap (fst (run_filters (2020, 2020, [])
                    (reruns [(2019, 2019, []), (2000, 2030, [Str ''J2''])] session0)))
        (var_df_filtered (fst (run_filters (2020, 2020, [])
                    (reruns [(2019, 2019, []), (2000, 2030, [Str ''J2''])] session0)))))) =
     [Str ''J2'']"
proof -
  let ?specs = "[(2019, 2019, []), (2000, 2030, [Str ''J2''])]"
  let ?X = "run_filters (2020, 2020, []) (reruns ?specs session0)"
  have v0: "var_df session0 = 0" by (simp add: session0_def)
  have a: "apply_filters (heap session0 (var_df session0)) (2020, 2020) [] =
      Inr \<lparr>columns = [''journal'', ''year''],
           rows = [[''journal'' \<mapsto> Str ''J2'', ''year'' \<mapsto> Num 2020]]\<rparr>"
    by (simp add: session0_def apply_filters_def bind_err_def getitem_def select_rows_def
        between_def cell_of_def)
  have i: "var_df session0 < next_ref session0" by (simp add: session0_def)
  note T = filters_leave_record_set_unchanged [OF i, of ?specs "(2020, 2020, [])"]
  have h: "heap (reruns ?specs session0) 0 = heap session0 0"
    using T by (simp add: v0)
  have "(case snd ?X of None \<Rightarrow> Inr (heap (fst ?X) (var_df_filtered (fst ?X)))
         | Some e \<Rightarrow> Inl e) =
      Inr \<lparr>columns = [''journal'', ''year''],
           rows = [[''journal'' \<mapsto> Str ''J2'', ''year'' \<mapsto> Num 2020]]\<rparr>"
    using T a by simp
  then have n: "snd ?X = None"
    and v: "heap (fst ?X) (var_df_filtered (fst ?X)) =
      \<lparr>columns = [''journal'', ''year''],
       rows = [[''journal'' \<mapsto> Str ''J2'', ''year'' \<mapsto> Num 2020]]\<rparr>"
    by (simp_all split: option.splits)
  have m: "map (\<lambda>r. cell_of r ''journal'')
      (rows (heap (fst ?X) (var_df_filtered (fst ?X)))) = [Str ''J2'']"
    unfolding v by (simp add: cell_of_def)
  show ?thesis
    by (intro conjI) (rule h, rule n, rule m)
qed



section \<open>The Sampler writes in place\<close>

text \<open>
  Claim C4 says a failed write leaves an existing sample unchanged, through a temporary
  path and a rename. The script has neither: \<open>to_csv\<close> writes onto the sample path, and
  a write that stops after five characters leaves those five characters where the old
  sample was, and the run exits.
\<close>
theorem sampler_overwrites_counterexample:
  "snd (create_sample Some (FailedAfter 5) files0) = Exit \<and>
   files0 ''metadata_sample.csv'' = Some ''title,abstract;t0,a0'' \<and>
   fst (create_sample Some (FailedAfter 5) files0) ''metadata_sample.csv'' = Some ''title''"
  by (simp add: create_sample_def to_csv_def files0_def)

text \<open>
  Claim C4, amended. The Sampler touches no file but the sample path. Without a source it
  changes nothing and the run goes on; when reading the source raises, or the sample path
  cannot be opened, the file system is unchanged and the run exits. It writes onto the
  sample path itself: on success the sample is the new text, and after a write that fails
  part-way the sample is the part written and the run exits.
\<close>
theorem sampler_writes_in_place:
  "(\<forall>p. p \<noteq> ''metadata_sample.csv'' \<longrightarrow> fst (create_sample first_chunk w fs) p = fs p) \<and>
   (fs ''metadata.csv'' = None \<longrightarrow> create_sample first_chunk w fs = (fs, Continue)) \<and>
   (fs ''metadata.csv'' = Some source \<and> first_chunk source = None \<longrightarrow>
      create_sample first_chunk w fs = (fs, Exit)) \<and>
   (fs ''metadata.csv'' = Some source \<and> first_chunk source = Some text \<longrightarrow>
      create_sample first_chunk w fs =
        (case w of
           Written \<Rightarrow> (fs(''metadata_sample.csv'' \<mapsto> text), Continue)
         | OpenFailed \<Rightarrow> (fs, Exit)
         | FailedAfter k \<Rightarrow> (fs(''metadata_sample.csv'' \<mapsto> take k text), Exit)))"
  by (auto simp: create_sample_def to_csv_def split: option.splits write_outcome.splits)

theorem sampler_writes_in_place_witness:
  "fst (create_sample Some (FailedAfter 5) files0) ''metadata.csv'' = files0 ''metadata.csv'' \<and>
   create_sample Some Written Map.empty = (Map.empty, Continue) \<and>
   create_sample (\<lambda>s. None) Written files0 = (files0, Exit) \<and>
   create_sample Some OpenFailed files0 = (files0, Exit) \<and>
   create_sample Some Written files0 =
     (files0(''metadata_sample.csv'' \<mapsto> ''title,abstract;t1,a1;t2,a2''), Continue) \<and>
   create_sample Some (FailedAfter 5) files0 =
     (files0(''metadata_sample.csv'' \<mapsto> ''title''), Exit)"
proof -
  have src: "files0 ''metadata.csv'' = Some ''title,abstract;t1,a1;t2,a2''"
    by (simp add: files0_def)
  note T = sampler_writes_in_place
  have "fst (create_sample Some (FailedAfter 5) files0) ''metadata.csv'' = files0 ''metadata.csv''"
    using T [where first_chunk = Some and w = "FailedAfter 5" and fs = files0, THEN conjunct1] by simp
  moreover have "create_sample Some Written Map.empty = (Map.empty, Continue)"
    using T [where fs = Map.empty and first_chunk = Some and w = Written, THEN conjunct2, THEN conjunct1] by simp
  moreover have "create_sample (\<lambda>s. None) Written files0 = (files0, Exit)"
    using T [where fs = files0 and first_chunk = "\<lambda>s. None" and w = Written, THEN conjunct2, THEN conjunct2, THEN conjunct1] src
    by simp
  moreover have "create_sample Some OpenFailed files0 = (files0, Exit)"
    using T [where fs = files0 and first_chunk = Some and w = OpenFailed, THEN conjunct2, THEN conjunct2, THEN conjunct2] src
    by simp
  moreover have "create_sample Some Written files0 =
     (files0(''metadata_sample.csv'' \<mapsto> ''title,abstract;t1,a1;t2,a2''), Continue)"
    using T [where fs = files0 and first_chunk = Some and w = Written, THEN conjunct2, THEN conjunct2, THEN conjunct2] src
    by simp
  moreover have "create_sample Some (FailedAfter 5) files0 =
     (files0(''metadata_sample.csv'' \<mapsto> ''title''), Exit)"
    using T [where fs = files0 and first_chunk = Some and w = "FailedAfter 5", THEN conjunct2, THEN conjunct2, THEN conjunct2] src
    by simp
  ultimately show ?thesis by (intro conjI)
qed



section \<open>The batch report stops at the first exception\<close>

lemma and_then_simps:
  "and_then (saved, None) step = step saved"
  "and_then (saved, Some e) step = (saved, Some e)"
  by (simp_all add: and_then_def)

lemma savefig_cases:
  "savefig rd fig path saved = (saved @ [path], None) \<or>
   savefig rd fig path saved = (saved, Some RenderError)"
  by (simp add: savefig_def)

lemma plot_by_year_cases:
  "plot_by_year a rd df saved = (saved @ [''plots/publications_by_year.png''], None) \<or>
   (\<exists>e. plot_by_year a rd df saved = (saved, Some e))"
  using savefig_cases [of rd _ "''plots/publications_by_year.png''" saved]
  by (auto simp: plot_by_year_def split: sum.splits)

lemma plot_top_journals_cases:
  "plot_top_journals a rd df saved = (saved @ [''plots/top_journals.png''], None) \<or>
   (\<exists>e. plot_top_journals a rd df saved = (saved, Some e))"
  using savefig_cases [of rd _ "''plots/top_journals.png''" saved]
  by (auto simp: plot_top_journals_def split: sum.splits)

lemma plot_wordcloud_cases:
  "plot_wordcloud pt rd df saved = (saved @ [''plots/wordcloud_titles.png''], None) \<or>
   (\<exists>e. plot_wordcloud pt rd df saved = (saved, Some e))"
  using savefig_cases [of rd _ "''plots/wordcloud_titles.png''" saved]
  by (auto simp: plot_wordcloud_def split: sum.splits)

lemma plot_sources_absent:
  "''source_x'' \<notin> set (columns df) \<Longrightarrow>
   plot_sources a rd df saved = (saved, Some (KeyError ''source_x''))"
  by (simp add: plot_sources_def getitem_def)

lemma first_three_steps:
  "\<exists>saved err.
     and_then (and_then (plot_by_year a rd df []) (plot_top_journals a rd df))
       (plot_wordcloud pt rd df) = (saved, err) \<and>
     set saved \<subseteq> {''plots/publications_by_year.png'', ''plots/top_journals.png'',
                    ''plots/wordcloud_titles.png''} \<and>
     (err = None \<longrightarrow> saved = [''plots/publications_by_year.png'', ''plots/top_journals.png'',
                    ''plots/wordcloud_titles.png''])"
proof -
  consider "plot_by_year a rd df [] = ([''plots/publications_by_year.png''], None)"
    | e where "plot_by_year a rd df [] = ([], Some e)"
    using plot_by_year_cases [of a rd df "[]"] by auto
  then show ?thesis
  proof cases
    case 1
    let ?s1 = "[''plots/publications_by_year.png'']"
    consider "plot_top_journals a rd df ?s1 = (?s1 @ [''plots/top_journals.png''], None)"
      | e where "plot_top_journals a rd df ?s1 = (?s1, Some e)"
      using plot_top_journals_cases [of a rd df ?s1] by auto
    then show ?thesis
    proof cases
      case 1
      let ?s2 = "?s1 @ [''plots/top_journals.png'']"
      note b = \<open>plot_by_year a rd df [] = (?s1, None)\<close>
      consider "plot_wordcloud pt rd df ?s2 = (?s2 @ [''plots/wordcloud_titles.png''], None)"
        | e where "plot_wordcloud pt rd df ?s2 = (?s2, Some e)"
        using plot_wordcloud_cases [of pt rd df ?s2] by auto
      then show ?thesis
        using b 1 by cases (simp_all add: and_then_simps)
    next
      case 2
      with \<open>plot_by_year a rd df [] = (?s1, None)\<close> show ?thesis
        by (simp add: and_then_simps)
    qed
  next
    case 2
    then show ?thesis by (simp add: and_then_simps)
  qed
qed

lemma batch_analysis_without_source:
  assumes "''source_x'' \<notin> set (columns df)"
  shows "snd (batch_analysis a pt rd df) \<noteq> None"
    and "''plots/source_distribution.png'' \<notin> set (fst (batch_analysis a pt rd df))"
proof -
  obtain saved err where p:
    "and_then (and_then (plot_by_year a rd df []) (plot_top_journals a rd df))
       (plot_wordcloud pt rd df) = (saved, err)"
    "set saved \<subseteq> {''plots/publications_by_year.png'', ''plots/top_journals.png'',
                    ''plots/wordcloud_titles.png''}"
    using first_three_steps [of a rd df pt] by blast
  have r: "batch_analysis a pt rd df = (saved, if err = None then Some (KeyError ''source_x'') else err)"
    unfolding batch_analysis_def p(1)
    by (cases err) (simp_all add: and_then_simps plot_sources_absent [OF assms])
  show "snd (batch_analysis a pt rd df) \<noteq> None" by (simp add: r)
  show "''plots/source_distribution.png'' \<notin> set (fst (batch_analysis a pt rd df))"
    using p(2) by (auto simp: r)
qed

lemma batch_analysis_reaches_source:
  assumes "''source_x'' \<notin> set (columns df)" "''year'' \<in> set (columns df)"
    "''journal'' \<in> set (columns df)" "''title'' \<in> set (columns df)"
    "\<forall>fig. rd fig" "pt (all_titles (map (\<lambda>r. cell_of r ''title'') (rows df))) \<noteq> []"
  shows "batch_analysis a pt rd df =
     ([''plots/publications_by_year.png'', ''plots/top_journals.png'',
       ''plots/wordcloud_titles.png''], Some (KeyError ''source_x''))"
  using assms
  by (simp add: batch_analysis_def plot_by_year_def plot_top_journals_def plot_wordcloud_def
      top_journals_def bind_err_def generate_def Let_def savefig_def and_then_simps
      plot_sources_absent getitem_def)

text \<open>
  Claim C9 says that for any sample without \<open>source_x\<close> the batch run fails at the source
  step, after three images. Two samples without that column fail earlier: one that also
  lacks \<open>publish_time\<close> stops in the cleaning with \<open>KeyError\<close> and no image, and the sample
  without records stops at the word cloud with \<open>ValueError\<close> after two images.
\<close>

theorem batch_stops_before_source_counterexample:
  "''source_x'' \<notin> set (columns raw_undated) \<and>
   batch_report year_parser argsort_stable split_words (\<lambda>fig. True) raw_undated =
     ([], Some (KeyError ''publish_time'')) \<and>
   ''source_x'' \<notin> set (columns raw_empty) \<and>
   batch_report year_parser argsort_stable split_words (\<lambda>fig. True) raw_empty =
     ([''plots/publications_by_year.png'', ''plots/top_journals.png''], Some ValueError)"
proof (intro conjI)
  show "''source_x'' \<notin> set (columns raw_undated)" by (simp add: raw_undated_def)
  show "''source_x'' \<notin> set (columns raw_empty)" by (simp add: raw_empty_def)
  have "clean_batch year_parser raw_undated = Inl (KeyError ''publish_time'')"
    by (simp add: clean_batch_def bind_err_def assign_from_def getitem_def drop_columns_def
        drop_cols_def setitem_def raw_undated_def)
  then show "batch_report year_parser argsort_stable split_words (\<lambda>fig. True) raw_undated =
     ([], Some (KeyError ''publish_time''))"
    by (simp add: batch_report_def)
  have c: "clean_batch year_parser raw_empty =
      Inr \<lparr>columns = [''title'', ''abstract'', ''publish_time'', ''journal'', ''year'',
                       ''abstract_word_count''], rows = []\<rparr>"
    by (simp add: clean_batch_def bind_err_def assign_from_def getitem_def drop_columns_def
        drop_cols_def setitem_def raw_empty_def fillna_def)
  show "batch_report year_parser argsort_stable split_words (\<lambda>fig. True) raw_empty =
     ([''plots/publications_by_year.png'', ''plots/top_journals.png''], Some ValueError)"
    unfolding batch_report_def c
    by (simp add: batch_analysis_def plot_by_year_def plot_top_journals_def plot_wordcloud_def
        top_journals_def bind_err_def getitem_def savefig_def and_then_def generate_def
        all_titles_def py_lower_def split_words_def py_split_def tally_def)
qed

text \<open>
  Claim C9, amended. The batch script reads \<open>df['source_x']\<close> with no guard. For a sample
  without that column the run never completes and never writes the source distribution
  image. When its earlier steps go through (cleaning returns, the \<open>journal\<close> column is
  there, the renderer draws every figure, the word cloud finds a word), it fails exactly at
  the source step with \<open>KeyError\<close>, after the by-year, top-journals and word-cloud images
  have been saved; otherwise it has failed before, with fewer images.
\<close>

theorem batch_fails_at_source_distribution:
  assumes "''source_x'' \<notin> set (columns sample)"
  shows "snd (batch_report to_datetime argsort process_text renderer sample) \<noteq> None \<and>
         ''plots/source_distribution.png'' \<notin>
           set (fst (batch_report to_datetime argsort process_text renderer sample)) \<and>
         (clean_batch to_datetime sample = Inr df \<and> ''journal'' \<in> set (columns sample) \<and>
          (\<forall>fig. renderer fig) \<and>
          process_text (all_titles (map (\<lambda>r. cell_of r ''title'') (rows df))) \<noteq> [] \<longrightarrow>
            batch_report to_datetime argsort process_text renderer sample =
              ([''plots/publications_by_year.png'', ''plots/top_journals.png'',
                ''plots/wordcloud_titles.png''], Some (KeyError ''source_x'')))"
proof (cases "clean_batch to_datetime sample")
  case (Inl e)
  then show ?thesis by (simp add: batch_report_def)
next
  case (Inr d)
  have c: "set (columns d) = (set (columns sample) - set drop_cols) \<union> {''year'', ''abstract_word_count''}"
    by (rule clean_batch_columns(1) [OF Inr])
  have nos: "''source_x'' \<notin> set (columns d)" using assms c by simp
  have t: "''title'' \<in> set (columns d)" "''year'' \<in> set (columns d)"
    using c clean_batch_requires [OF Inr] by (simp_all add: drop_cols_def)
  have r: "batch_report to_datetime argsort process_text renderer sample =
      batch_analysis argsort process_text renderer d"
    by (simp add: batch_report_def Inr)
  have j: "''journal'' \<in> set (columns sample) \<Longrightarrow> ''journal'' \<in> set (columns d)"
    using c by (simp add: drop_cols_def)
  show ?thesis
    unfolding r
    using batch_analysis_without_source [OF nos, of argsort process_text renderer]
      batch_analysis_reaches_source [OF nos t(2) j t(1), of renderer process_text argsort] Inr
    by auto
qed


theorem batch_fails_at_source_distribution_witness:
  "batch_report year_parser argsort_stable split_words (\<lambda>fig. True) raw_years =
     ([''plots/publications_by_year.png'', ''plots/top_journals.png'',
       ''plots/wordcloud_titles.png''], Some (KeyError ''source_x''))"
proof -
  obtain df where df: "clean_batch year_parser raw_years = Inr df"
    "rows df = map (\<lambda>r. clean_row year_parser (r |` (- set drop_cols))) (rows raw_years)"
    using clean_batch_rows [of raw_years year_parser] by (auto simp: raw_years_def)
  have s: "''source_x'' \<notin> set (columns raw_years)" "''journal'' \<in> set (columns raw_years)"
    by (simp_all add: raw_years_def)
  have t: "map (\<lambda>r. cell_of r ''title'') (rows df) = [Str ''t1'', Str ''t2'', Str ''t3'', Str ''t4'']"
    unfolding df(2)
    by (simp add: raw_years_def clean_row_def Let_def cell_of_def drop_cols_def restrict_map_def)
  have w: "split_words (all_titles (map (\<lambda>r. cell_of r ''title'') (rows df))) \<noteq> []"
    unfolding t
    by (simp add: split_words_def all_titles_def py_str_def py_lower_def lower_char_def
        py_split_def is_space_def tally_def)
  from batch_fails_at_source_distribution
    [OF s(1), of year_parser argsort_stable split_words "\<lambda>fig. True" df] df(1) s(2) w
  show ?thesis by simp
qed

lemma all_titles_empty: "all_titles [] = ''''"
  by (simp add: all_titles_def py_lower_def)

lemma explorer_handles_empty_view:
  assumes "''title'' \<in> set (columns view)" and "rows view = []"
  shows "explorer_views argsort process_text renderer view top_n =
     Inr [Info ''No valid 'year' values available for plotting.'',
          Info ''No journal information available to display.'',
          Info ''No title text available to generate a word cloud.'',
          Info ''No 'source_x' column available in this dataset sample.'']"
  using assms
  by (simp add: explorer_views_def view_by_year_def view_top_journals_def view_wordcloud_def
      view_sources_def has_values_def bind_err_def getitem_def all_titles_empty py_strip_def)

lemma explorer_on_empty_filtered_view:
  assumes "load_data to_datetime raw = Inr df" and "apply_filters df year_range journal_set = Inr view"
    and "rows view = []"
  shows "explorer_views argsort process_text renderer view top_n =
     Inr [Info ''No valid 'year' values available for plotting.'',
          Info ''No journal information available to display.'',
          Info ''No title text available to generate a word cloud.'',
          Info ''No 'source_x' column available in this dataset sample.'']"
proof -
  have "''title'' \<in> set (columns df)"
    using load_data_columns(1) [OF assms(1)] assms(1)
    by (auto simp: load_data_def bind_err_Inr_iff dest!: assign_from_Inr)
  moreover have "columns view = columns df"
    using apply_filters_Inr [OF assms(2) load_data_has_year [OF assms(1)]] by simp
  ultimately show ?thesis
    using explorer_handles_empty_view [OF _ assms(3)] by simp
qed

text \<open>
  Claim C7 asks that on an empty view every step yields an empty or placeholder result in
  both programs. The explorer does (the two lemmas above: its four guards give the four
  notices). The batch script has no guard: on a sample without rows the text handed to the
  word cloud is empty, \<open>WordCloud.generate\<close> raises \<open>ValueError\<close>, and the run stops
  before the word-cloud image, with the two earlier images saved when the renderer drew
  them.
\<close>
theorem batch_report_raises_on_empty_sample:
  assumes "rows sample = []" and "process_text '''' = []"
  shows "snd (batch_report to_datetime argsort process_text renderer sample) \<noteq> None \<and>
         ''plots/wordcloud_titles.png'' \<notin>
           set (fst (batch_report to_datetime argsort process_text renderer sample)) \<and>
         ({''title'', ''abstract'', ''publish_time'', ''journal''} \<subseteq> set (columns sample) \<and>
          (\<forall>fig. renderer fig) \<longrightarrow>
            batch_report to_datetime argsort process_text renderer sample =
              ([''plots/publications_by_year.png'', ''plots/top_journals.png''],
               Some ValueError))"
proof (cases "clean_batch to_datetime sample")
  case (Inl e)
  then have "\<not> {''title'', ''abstract'', ''publish_time''} \<subseteq> set (columns sample)"
    using clean_batch_rows [of sample to_datetime] by auto
  with Inl show ?thesis by (auto simp: batch_report_def)
next
  case (Inr d)
  have c: "set (columns d) = (set (columns sample) - set drop_cols) \<union> {''year'', ''abstract_word_count''}"
    by (rule clean_batch_columns(1) [OF Inr])
  have e: "rows d = []" using clean_batch_length [OF Inr] assms(1) by simp
  have t: "''title'' \<in> set (columns d)" "''year'' \<in> set (columns d)"
    using c clean_batch_requires [OF Inr] by (simp_all add: drop_cols_def)
  have r: "batch_report to_datetime argsort process_text renderer sample =
      batch_analysis argsort process_text renderer d"
    by (simp add: batch_report_def Inr)
  have wc: "plot_wordcloud process_text renderer d saved = (saved, Some ValueError)" for saved
    using t(1) e assms(2)
    by (simp add: plot_wordcloud_def getitem_def all_titles_empty generate_def)
  consider "plot_by_year argsort renderer d [] = ([''plots/publications_by_year.png''], None)"
    | x where "plot_by_year argsort renderer d [] = ([], Some x)"
    using plot_by_year_cases [of argsort renderer d "[]"] by auto
  then have main: "snd (batch_analysis argsort process_text renderer d) \<noteq> None \<and>
      ''plots/wordcloud_titles.png'' \<notin> set (fst (batch_analysis argsort process_text renderer d))"
  proof cases
    case 1
    let ?s1 = "[''plots/publications_by_year.png'']"
    consider "plot_top_journals argsort renderer d ?s1 = (?s1 @ [''plots/top_journals.png''], None)"
      | x where "plot_top_journals argsort renderer d ?s1 = (?s1, Some x)"
      using plot_top_journals_cases [of argsort renderer d ?s1] by auto
    then show ?thesis
      using 1 by cases (simp_all add: batch_analysis_def and_then_simps wc)
  next
    case 2
    then show ?thesis by (simp add: batch_analysis_def and_then_simps)
  qed
  have full: "batch_analysis argsort process_text renderer d =
      ([''plots/publications_by_year.png'', ''plots/top_journals.png''], Some ValueError)"
    if "''journal'' \<in> set (columns sample)" "\<forall>fig. renderer fig"
  proof -
    have "''journal'' \<in> set (columns d)" using that(1) c by (simp add: drop_cols_def)
    then show ?thesis
      using that(2) t(2)
      by (simp add: batch_analysis_def plot_by_year_def plot_top_journals_def top_journals_def
          bind_err_def savefig_def and_then_simps wc getitem_def)
  qed
  show ?thesis unfolding r using main full by auto
qed

theorem batch_report_raises_on_empty_sample_witness:
  "batch_report year_parser argsort_stable split_words (\<lambda>fig. True) raw_empty =
     ([''plots/publications_by_year.png'', ''plots/top_journals.png''], Some ValueError)"
proof -
  have e: "rows raw_empty = []" by (simp add: raw_empty_def)
  have w: "split_words '''' = []" by (simp add: split_words_def py_split_def tally_def)
  from batch_report_raises_on_empty_sample
    [where sample = raw_empty and process_text = split_words and to_datetime = year_parser
       and argsort = argsort_stable and renderer = "\<lambda>fig. True"] e w
  show ?thesis by (simp add: raw_empty_def)
qed



section \<open>Counting and ranking journals\<close>



































section \<open>Two facts about the values the programs meet\<close>

text \<open>The year column of a loaded sample holds integers and missing values only, the two
  kinds of cell that \<open>between\<close> tells apart.\<close>

lemma load_data_year_cells:
  assumes "load_data to_datetime raw = Inr df" and "r \<in> set (rows df)"
  shows "cell_of r ''year'' = NaN \<or> (\<exists>y. cell_of r ''year'' = Num y)"
proof -
  from load_data_columns(2) [OF assms(1)] assms(2)
  obtain r0 where "r = clean_row to_datetime r0 \<or> r = load_row_plain r0"
    by (auto split: if_splits)
  then show ?thesis
    by (auto simp: clean_row_def load_row_plain_def Let_def cell_of_def dt_year_def
        coerce_datetime_def split: option.splits cell.splits)
qed

text \<open>The word frequencies of the batch script on an empty title text are empty.\<close>

lemma common_words_empty: "common_words (all_titles []) = []"
  by (simp add: common_words_def most_common_def all_titles_def py_lower_def py_split_def tally_def)

end
